theory Spec2Isabelle
  imports Complex_Main "HOL-Library.Signed_Division" "HOL-Library.Word"
begin

section \<open>Partitioner (paginator.go)\<close>

text \<open>
  \<^verbatim>\<open>type IdxRange struct { Low, High int }\<close>

  Go's \<^verbatim>\<open>int\<close> is modelled as \<open>int\<close>; the quotient and remainder of Go truncate
  towards zero (\<open>sdiv\<close>, \<open>smod\<close>).  Lemma \<open>Partition_values_bounded\<close> below shows
  that for a non-negative length and a positive size every bound that is computed lies
  between 0 and the length, so no machine integer wraps around.
\<close>

record IdxRange =
  Low :: int
  High :: int

text \<open>
  The channel returned by \<^verbatim>\<open>Partition\<close> is unbuffered and closed by the producer;
  a consumer ranging over it sees the produced values in the order of the sends.
  The model is the list of the sent values.

  \<^verbatim>\<open>for ; i < numFullPartitions; i++ { c <- IdxRange{i * partitionSize, (i + 1) * partitionSize} }\<close>
  is \<open>fullPartitions\<close>, which returns what it sent and the final value of \<open>i\<close>.
\<close>

function fullPartitions :: "int \<Rightarrow> int \<Rightarrow> int \<Rightarrow> IdxRange list \<Rightarrow> IdxRange list \<times> int" where
  "fullPartitions partitionSize numFullPartitions i c =
     (if i < numFullPartitions
      then fullPartitions partitionSize numFullPartitions (i + 1)
             (c @ [\<lparr>Low = i * partitionSize, High = (i + 1) * partitionSize\<rparr>])
      else (c, i))"
  by pat_completeness auto
termination
  by (relation "measure (\<lambda>(partitionSize, numFullPartitions, i, c). nat (numFullPartitions - i))") auto

declare fullPartitions.simps [simp del]

definition Partition :: "int \<Rightarrow> int \<Rightarrow> IdxRange list" where
  "Partition collectionLen partitionSize =
     (if partitionSize \<le> 0 then []
      else
        let numFullPartitions = collectionLen sdiv partitionSize;
            (c, i) = fullPartitions partitionSize numFullPartitions 0 []
        in if collectionLen smod partitionSize \<noteq> 0
           then c @ [\<lparr>Low = i * partitionSize, High = collectionLen\<rparr>]
           else c)"

section \<open>Keys, table configuration, attribute values (handler and configuration files)\<close>

text \<open>
  \<^verbatim>\<open>type DBKeyValue string\<close>, \<^verbatim>\<open>type DBKeyName string\<close>,
  \<^verbatim>\<open>type DynamoTableOrIndexName string\<close>.  A Go pointer that may be \<^verbatim>\<open>nil\<close> is an
  \<open>option\<close>.  The interface \<^verbatim>\<open>DBPSKeyValues\<close> has the two getters below; its
  implementation in the repository is the struct \<^verbatim>\<open>dbPSKeyValues\<close>.
\<close>

type_synonym DBKeyValue = string
type_synonym DBKeyName = string
type_synonym DynamoTableOrIndexName = string

record dbPSKeyValues =
  partitionKey :: DBKeyValue
  sortKey :: "DBKeyValue option"

definition GetPartitionKey :: "dbPSKeyValues \<Rightarrow> DBKeyValue" where
  "GetPartitionKey d = partitionKey d"

definition GetSortKey :: "dbPSKeyValues \<Rightarrow> DBKeyValue option" where
  "GetSortKey d = sortKey d"

record DBPSKeyNames =
  PartitionKey :: DBKeyName
  SortKey :: "DBKeyName option"

record DBTableInfo = DBPSKeyNames +
  TableName :: string

record DBConfig =
  TableInfo :: DBTableInfo
  Indexes :: "DynamoTableOrIndexName \<rightharpoonup> DBPSKeyNames"

text \<open>
  Go errors are values carrying a message (\<^verbatim>\<open>errors.New\<close>); an \<^verbatim>\<open>error\<close> result that
  may be \<^verbatim>\<open>nil\<close> is an \<open>error option\<close>.
\<close>

datatype error = errors_New string

text \<open>
  Modelled from the spec: the provider's attribute value (\<^verbatim>\<open>dynamodb.AttributeValue\<close>
  of the provider's client library, which is not among the sources) is the "opaque
  provider-native attribute value" of the data model.  The repository only builds string
  attributes (\<^verbatim>\<open>&dynamodb.AttributeValue{S: aws.String(v)}\<close>); numbers, booleans and
  the null attribute are kept so that a provider can answer with something else.
  \<^verbatim>\<open>type DBMap map[string]*dynamodb.AttributeValue\<close>: the entries are pointers, and
  \<^verbatim>\<open>CreateQueryKeys\<close> can store a \<^verbatim>\<open>nil\<close> one.  A \<^verbatim>\<open>nil\<close> map and an empty map
  behave alike under \<^verbatim>\<open>len\<close>, lookup and \<^verbatim>\<open>range\<close>; both are \<open>Map.empty\<close>.
\<close>

datatype AttributeValue = S string | N string | BOOL bool | NULL

type_synonym DBMap = "string \<rightharpoonup> AttributeValue option"

text \<open>
  A function that can panic (a \<^verbatim>\<open>nil\<close> pointer dereference) has an \<open>outcome\<close>.
\<close>

datatype 'a outcome = Returns 'a | Panics

section \<open>The provider's expression builders, as far as the wrapper stores them\<close>

text \<open>
  Modelled from the spec: the builder values of the provider's expression library
  (\<^verbatim>\<open>expression.ConditionBuilder\<close>, \<^verbatim>\<open>KeyConditionBuilder\<close>, \<^verbatim>\<open>UpdateBuilder\<close>,
  \<^verbatim>\<open>Builder\<close>; the library is not among the sources).  The spec's builder state holds
  "zero or more filter conditions (AND/OR combined), zero or one key-condition expression,
  zero or more update-field assignments"; a condition is an operator applied to operands,
  or a boolean combination of conditions, and the zero value of each builder type is the
  "nothing set" state that \<^verbatim>\<open>reflect.DeepEqual\<close> tests for.

  The values handed to \<^verbatim>\<open>expression.Value\<close> are Go \<^verbatim>\<open>interface{}\<close> values; the ones
  the code distinguishes are \<^verbatim>\<open>FromToDate\<close> structs (two \<^verbatim>\<open>uint64\<close>) and the rest.
\<close>

record FromToDate =
  FromDate :: "64 word"
  ToDate :: "64 word"

datatype goValue =
  GoString string | GoInt int | GoUint64 "64 word" | GoBool bool | GoFromToDate FromToDate

datatype Operator = EQUAL | LT | LE | GT | GE | BETWEEN | OtherOperator int

datatype OperandBuilder = NameBuilder string | ValueBuilder goValue | KeyBuilder string

datatype conditionMode =
  unsetCond | equalCond | lessThanCond | lessThanEqualCond | greaterThanCond
  | greaterThanEqualCond | andCond | orCond | betweenCond

datatype ConditionBuilder =
  ConditionBuilder (operandList: "OperandBuilder list")
    (conditionList: "ConditionBuilder list") (mode: conditionMode)

datatype keyConditionMode =
  unsetKeyCond | equalKeyCond | lessThanKeyCond | lessThanEqualKeyCond
  | greaterThanKeyCond | greaterThanEqualKeyCond

datatype KeyConditionBuilder =
  KeyConditionBuilder (keyOperandList: "OperandBuilder list")
    (keyConditionList: "KeyConditionBuilder list") (keyMode: keyConditionMode)

text \<open>The zero values \<^verbatim>\<open>expression.ConditionBuilder{}\<close> and \<^verbatim>\<open>expression.KeyConditionBuilder{}\<close>.\<close>

definition zeroConditionBuilder :: ConditionBuilder where
  "zeroConditionBuilder = ConditionBuilder [] [] unsetCond"

definition zeroKeyConditionBuilder :: KeyConditionBuilder where
  "zeroKeyConditionBuilder = KeyConditionBuilder [] [] unsetKeyCond"

text \<open>
  Modelled from the spec: the update builder.  "Each update-field call sets one field to
  one value; multiple calls accumulate into a single compiled update clause".  In the
  library an \<^verbatim>\<open>UpdateBuilder\<close> is a struct whose only field is a Go map from the kind of
  operation to the list of operations of that kind.  A Go map is a reference: copying
  the struct (as a method with a value receiver does) copies the reference, and a write
  through the copy is seen through the original.  The wrapper's
  \<^verbatim>\<open>expr.updateExpression.Set(...)\<close> drops the returned builder, so whether the field
  is kept depends on exactly this sharing.  The maps therefore live in an explicit store
  \<open>mapStore\<close>, and an \<open>UpdateBuilder\<close> holds an address into it, or \<open>None\<close> for the
  \<^verbatim>\<open>nil\<close> map of the zero value.
\<close>

datatype operationMode = setOperation | removeOperation | addOperation | deleteOperation

record operationBuilder =
  opName :: string
  opValue :: OperandBuilder
  opMode :: operationMode

type_synonym operationMap = "operationMode \<rightharpoonup> operationBuilder list"

record mapStore =
  cells :: "nat \<rightharpoonup> operationMap"
  nextRef :: nat

record UpdateBuilder =
  operationList :: "nat option"

definition zeroUpdateBuilder :: UpdateBuilder where
  "zeroUpdateBuilder = \<lparr>operationList = None\<rparr>"

text \<open>
  \<^verbatim>\<open>func (ub UpdateBuilder) Set(name, operand) UpdateBuilder\<close>: the receiver is a copy;
  a \<^verbatim>\<open>nil\<close> map is replaced by a new map in the copy only; the operation is appended
  to the list stored in the map under \<^verbatim>\<open>setOperation\<close>; the copy is returned.
\<close>

definition UpdateBuilder_Set ::
  "UpdateBuilder \<Rightarrow> string \<Rightarrow> OperandBuilder \<Rightarrow> mapStore \<Rightarrow> UpdateBuilder \<times> mapStore" where
  "UpdateBuilder_Set ub name operand st =
     (let (r, st1) =
            (case operationList ub of
               None \<Rightarrow> (nextRef st,
                         st\<lparr>cells := (cells st)(nextRef st \<mapsto> Map.empty), nextRef := nextRef st + 1\<rparr>)
             | Some r \<Rightarrow> (r, st));
          m = (case cells st1 r of None \<Rightarrow> Map.empty | Some m \<Rightarrow> m);
          old = (case m setOperation of None \<Rightarrow> [] | Some ops \<Rightarrow> ops);
          m' = m(setOperation \<mapsto> old @ [\<lparr>opName = name, opValue = operand, opMode = setOperation\<rparr>])
      in (\<lparr>operationList = Some r\<rparr>, st1\<lparr>cells := (cells st1)(r \<mapsto> m')\<rparr>))"

text \<open>\<^verbatim>\<open>func Set(name, operand) UpdateBuilder\<close> is \<^verbatim>\<open>UpdateBuilder{}.Set(name, operand)\<close>.\<close>

definition expression_Set :: "string \<Rightarrow> OperandBuilder \<Rightarrow> mapStore \<Rightarrow> UpdateBuilder \<times> mapStore" where
  "expression_Set name operand st = UpdateBuilder_Set zeroUpdateBuilder name operand st"

text \<open>
  The contents of an update builder as a reader sees them: \<open>None\<close> for the \<^verbatim>\<open>nil\<close>
  map, otherwise the map stored at its address.
\<close>

definition updateOperations :: "mapStore \<Rightarrow> UpdateBuilder \<Rightarrow> operationMap option" where
  "updateOperations st ub =
     (case operationList ub of
        None \<Rightarrow> None
      | Some r \<Rightarrow> Some (case cells st r of None \<Rightarrow> Map.empty | Some m \<Rightarrow> m))"

text \<open>
  \<^verbatim>\<open>reflect.DeepEqual\<close> takes two \<^verbatim>\<open>interface{}\<close> values: values of different dynamic
  types are never deeply equal, and values of the same type are compared by content (a
  \<^verbatim>\<open>nil\<close> map is not deeply equal to a map that is not \<^verbatim>\<open>nil\<close>).
\<close>

datatype goAny =
  AnyConditionBuilder ConditionBuilder
  | AnyKeyConditionBuilder KeyConditionBuilder
  | AnyUpdateBuilder "operationMap option"

definition DeepEqual :: "goAny \<Rightarrow> goAny \<Rightarrow> bool" where
  "DeepEqual x y = (x = y)"

text \<open>
  Modelled from the spec: the condition constructors of the expression library
  (\<^verbatim>\<open>expression.Name(n).Equal(expression.Value(v))\<close> and the like; "Operators: EQUAL,
  LESS_THAN, LESS_OR_EQUAL, GREATER_THAN, GREATER_OR_EQUAL, BETWEEN"): a comparison
  holds its operands and its operator.
\<close>

definition compareCond :: "conditionMode \<Rightarrow> string \<Rightarrow> goValue \<Rightarrow> ConditionBuilder" where
  "compareCond m name v = ConditionBuilder [NameBuilder name, ValueBuilder v] [] m"

definition betweenCondition :: "string \<Rightarrow> goValue \<Rightarrow> goValue \<Rightarrow> ConditionBuilder" where
  "betweenCondition name lower upper =
     ConditionBuilder [NameBuilder name, ValueBuilder lower, ValueBuilder upper] [] betweenCond"

definition compareKeyCond :: "keyConditionMode \<Rightarrow> string \<Rightarrow> goValue \<Rightarrow> KeyConditionBuilder" where
  "compareKeyCond m name v = KeyConditionBuilder [KeyBuilder name, ValueBuilder v] [] m"

text \<open>
  Modelled from the spec: the compile step of the expression library
  (\<^verbatim>\<open>expression.NewBuilder().WithFilter(..).WithKeyCondition(..).WithUpdate(..).Build()\<close>).
  A \<open>Builder\<close> holds what was put into it, one slot per kind of expression; the update
  slot holds the operations found in the update builder's map when the compile runs.
  The compiled \<open>Expression\<close> gives the attribute names and values and one formatted
  expression per filled slot (\<^verbatim>\<open>Names()\<close>, \<^verbatim>\<open>Values()\<close>, \<^verbatim>\<open>Filter()\<close>,
  \<^verbatim>\<open>KeyCondition()\<close>, \<^verbatim>\<open>Update()\<close>).  How the library formats an expression is not
  fixed here: the compile function is a parameter \<open>Build\<close> of the operations that
  compile, returning the expression and the error as the Go function does.
\<close>

record Builder =
  filterSlot :: "ConditionBuilder option"
  keyConditionSlot :: "KeyConditionBuilder option"
  updateSlot :: "operationMap option"

definition NewBuilder :: Builder where
  "NewBuilder = \<lparr>filterSlot = None, keyConditionSlot = None, updateSlot = None\<rparr>"

definition WithFilter :: "ConditionBuilder \<Rightarrow> Builder \<Rightarrow> Builder" where
  "WithFilter c b = b\<lparr>filterSlot := Some c\<rparr>"

definition WithKeyCondition_Builder :: "KeyConditionBuilder \<Rightarrow> Builder \<Rightarrow> Builder" where
  "WithKeyCondition_Builder c b = b\<lparr>keyConditionSlot := Some c\<rparr>"

definition WithUpdate :: "mapStore \<Rightarrow> UpdateBuilder \<Rightarrow> Builder \<Rightarrow> Builder" where
  "WithUpdate st ub b =
     b\<lparr>updateSlot := Some (case updateOperations st ub of None \<Rightarrow> Map.empty | Some m \<Rightarrow> m)\<rparr>"

record Expression =
  Names :: "string \<rightharpoonup> string"
  Values :: "string \<rightharpoonup> AttributeValue"
  Filter :: "string option"
  KeyCondition :: "string option"
  Update :: "string option"

type_synonym compile = "Builder \<Rightarrow> Expression \<times> error option"

section \<open>Expression wrapper (aws\_expression.go)\<close>

record AwsExpressionWrapper =
  updateExpression :: UpdateBuilder
  conditionExpression :: ConditionBuilder
  keyCondition :: KeyConditionBuilder
  projection :: "string list"
  partitionKeyValue :: "AttributeValue option"
  sortKeyValue :: "AttributeValue option"
  exclusiveStartKey :: DBMap
  scanIndexForward :: "bool option"
  partitionKeyName :: string
  sortKeyName :: string
  dynamoDBTable :: string
  dynamoDBIndex :: string
  limit :: "int option"

definition NewExpressionWrapper :: "string \<Rightarrow> AwsExpressionWrapper" where
  "NewExpressionWrapper tableName =
     \<lparr>updateExpression = zeroUpdateBuilder,
      conditionExpression = zeroConditionBuilder,
      keyCondition = zeroKeyConditionBuilder,
      projection = [],
      partitionKeyValue = None,
      sortKeyValue = None,
      exclusiveStartKey = Map.empty,
      scanIndexForward = None,
      partitionKeyName = [],
      sortKeyName = [],
      dynamoDBTable = tableName,
      dynamoDBIndex = [],
      limit = None\<rparr>"

definition WithPartitionKey :: "string \<Rightarrow> string \<Rightarrow> AwsExpressionWrapper \<Rightarrow> AwsExpressionWrapper" where
  "WithPartitionKey pKey pValue expr =
     (let expr = expr\<lparr>partitionKeyName := pKey\<rparr>
      in if length pValue > 0 then expr\<lparr>partitionKeyValue := Some (S pValue)\<rparr> else expr)"

definition WithSortingKey :: "string \<Rightarrow> string \<Rightarrow> AwsExpressionWrapper \<Rightarrow> AwsExpressionWrapper" where
  "WithSortingKey sKey sValue expr =
     (let expr = expr\<lparr>sortKeyName := sKey\<rparr>
      in if length sValue > 0 then expr\<lparr>sortKeyValue := Some (S sValue)\<rparr> else expr)"

definition CreateQueryKeys :: "AwsExpressionWrapper \<Rightarrow> error + DBMap" where
  "CreateQueryKeys expr =
     (if length (partitionKeyName expr) < 1 \<or> partitionKeyValue expr = None
      then Inl (errors_New ''missing partition key'')
      else
        let attributeValues = [partitionKeyName expr \<mapsto> partitionKeyValue expr]
        in Inr (if length (sortKeyName expr) > 0
                then attributeValues(sortKeyName expr \<mapsto> sortKeyValue expr)
                else attributeValues))"

text \<open>\<^verbatim>\<open>createCondition\<close> and \<^verbatim>\<open>createKeyCondition\<close>, with the type switch on the value.\<close>

definition createCondition :: "string \<Rightarrow> goValue \<Rightarrow> Operator \<Rightarrow> ConditionBuilder" where
  "createCondition name v operator =
     (case v of
        GoFromToDate obj \<Rightarrow>
          (case operator of
             BETWEEN \<Rightarrow> betweenCondition name (GoUint64 (FromDate obj)) (GoUint64 (ToDate obj))
           | _ \<Rightarrow> compareCond greaterThanEqualCond name (GoUint64 (FromDate obj)))
      | _ \<Rightarrow>
          (case operator of
             EQUAL \<Rightarrow> compareCond equalCond name v
           | LT \<Rightarrow> compareCond lessThanCond name v
           | LE \<Rightarrow> compareCond lessThanEqualCond name v
           | GT \<Rightarrow> compareCond greaterThanCond name v
           | GE \<Rightarrow> compareCond greaterThanEqualCond name v
           | _ \<Rightarrow> compareCond equalCond name v))"

definition createKeyCondition :: "string \<Rightarrow> goValue \<Rightarrow> Operator \<Rightarrow> KeyConditionBuilder" where
  "createKeyCondition name v operator =
     (case operator of
        EQUAL \<Rightarrow> compareKeyCond equalKeyCond name v
      | LT \<Rightarrow> compareKeyCond lessThanKeyCond name v
      | LE \<Rightarrow> compareKeyCond lessThanEqualKeyCond name v
      | GT \<Rightarrow> compareKeyCond greaterThanKeyCond name v
      | GE \<Rightarrow> compareKeyCond greaterThanEqualKeyCond name v
      | _ \<Rightarrow> compareKeyCond equalKeyCond name v)"

definition WithCondition ::
  "string \<Rightarrow> goValue \<Rightarrow> Operator \<Rightarrow> AwsExpressionWrapper \<Rightarrow> AwsExpressionWrapper" where
  "WithCondition name v operator expr =
     expr\<lparr>conditionExpression := createCondition name v operator\<rparr>"

definition WithKeyCondition ::
  "string \<Rightarrow> goValue \<Rightarrow> Operator \<Rightarrow> AwsExpressionWrapper \<Rightarrow> AwsExpressionWrapper" where
  "WithKeyCondition name v operator expr =
     expr\<lparr>keyCondition := createKeyCondition name v operator\<rparr>"

definition WithLimit :: "int \<Rightarrow> AwsExpressionWrapper \<Rightarrow> AwsExpressionWrapper" where
  "WithLimit l expr = expr\<lparr>limit := Some l\<rparr>"

definition WithExlusiveStartingKey :: "DBMap \<Rightarrow> AwsExpressionWrapper \<Rightarrow> AwsExpressionWrapper" where
  "WithExlusiveStartingKey lastEvaluatedKey expr = expr\<lparr>exclusiveStartKey := lastEvaluatedKey\<rparr>"

text \<open>
  \<^verbatim>\<open>WithUpdateField\<close> works on the wrapper and on the store of the update builders' maps.
  The first branch assigns the builder that \<^verbatim>\<open>expression.Set\<close> returns; the second calls
  the method \<^verbatim>\<open>Set\<close> on \<^verbatim>\<open>expr.updateExpression\<close> and drops the builder it returns.
\<close>

definition WithUpdateField ::
  "string \<Rightarrow> goValue \<Rightarrow> mapStore \<times> AwsExpressionWrapper \<Rightarrow> mapStore \<times> AwsExpressionWrapper" where
  "WithUpdateField name v se =
     (let (st, expr) = se
      in if DeepEqual (AnyUpdateBuilder (updateOperations st (updateExpression expr)))
                      (AnyUpdateBuilder (updateOperations st zeroUpdateBuilder))
         then
           let (ub, st') = expression_Set name (ValueBuilder v) st
           in (st', expr\<lparr>updateExpression := ub\<rparr>)
         else
           let (ub, st') = UpdateBuilder_Set (updateExpression expr) name (ValueBuilder v) st
           in (st', expr))"

text \<open>
  A sequence of \<^verbatim>\<open>WithUpdateField\<close> calls on one wrapper, as in the chained calls of the
  tests and in the loop of \<^verbatim>\<open>Update\<close> in command.go:
  \<^verbatim>\<open>for k, v := range data { builder.WithUpdateField(string(k), v) }\<close>.
\<close>

fun WithUpdateFields ::
  "(string \<times> goValue) list \<Rightarrow> mapStore \<times> AwsExpressionWrapper \<Rightarrow> mapStore \<times> AwsExpressionWrapper" where
  "WithUpdateFields [] se = se"
| "WithUpdateFields ((k, v) # rest) se = WithUpdateFields rest (WithUpdateField k v se)"

text \<open>
  The request types of the provider, as far as the compile operations fill them.  The
  fields \<^verbatim>\<open>TableName\<close> and \<^verbatim>\<open>Key\<close> of the requests are written \<open>InputTableName\<close> and
  \<open>InputKey\<close> here.
\<close>

record ExpressionInput =
  ExpressionAttributeNames :: "string \<rightharpoonup> string"
  ExpressionAttributeValues :: "string \<rightharpoonup> AttributeValue"
  InputTableName :: "string option"

record UpdateItemInput = ExpressionInput +
  UpdateExpression :: "string option"
  InputKey :: DBMap

record ScanInput = ExpressionInput +
  FilterExpression :: "string option"
  Limit :: "int option"
  ExclusiveStartKey :: DBMap

text \<open>
  \<^verbatim>\<open>BuildUpdateInput\<close> returns a request pointer and an error; both can be set, since
  the error of \<^verbatim>\<open>builder.Build()\<close> is returned next to the request.
\<close>

definition BuildUpdateInput ::
  "compile \<Rightarrow> mapStore \<times> AwsExpressionWrapper \<Rightarrow> UpdateItemInput option \<times> error option" where
  "BuildUpdateInput Build se =
     (let (st, expr) = se
      in if DeepEqual (AnyUpdateBuilder (updateOperations st (updateExpression expr)))
                      (AnyUpdateBuilder (updateOperations st zeroUpdateBuilder))
         then (None, Some (errors_New ''their is nothing set to be updated, please use WithUpdateField''))
         else
           case CreateQueryKeys expr of
             Inl keyErr \<Rightarrow> (None, Some keyErr)
           | Inr queryKeys \<Rightarrow>
               let builder = WithUpdate st (updateExpression expr) NewBuilder;
                   (awsExpressionBuilder, err) = Build builder
               in (Some \<lparr>ExpressionAttributeNames = Names awsExpressionBuilder,
                          ExpressionAttributeValues = Values awsExpressionBuilder,
                          InputTableName = Some (dynamoDBTable expr),
                          UpdateExpression = Update awsExpressionBuilder,
                          InputKey = queryKeys\<rparr>, err))"

text \<open>
  \<^verbatim>\<open>BuildScanInput\<close>.  The second test compares \<^verbatim>\<open>expr.keyCondition\<close>, a
  \<^verbatim>\<open>KeyConditionBuilder\<close>, with \<^verbatim>\<open>expression.ConditionBuilder{}\<close>.  The errors of the
  two \<^verbatim>\<open>Build\<close> calls are dropped.
\<close>

definition BuildScanInput ::
  "compile \<Rightarrow> AwsExpressionWrapper \<Rightarrow> ScanInput option \<times> error option" where
  "BuildScanInput Build expr =
     (if length (dynamoDBTable expr) = 0
      then (None, Some (errors_New ''missing table-name''))
      else
        let input = \<lparr>ExpressionAttributeNames = Map.empty,
                     ExpressionAttributeValues = Map.empty,
                     InputTableName = Some (dynamoDBTable expr),
                     FilterExpression = None, Limit = None, ExclusiveStartKey = Map.empty\<rparr>;
            builder = NewBuilder;
            (builder, input) =
              (if \<not> DeepEqual (AnyConditionBuilder (conditionExpression expr))
                              (AnyConditionBuilder zeroConditionBuilder)
               then
                 let builder = WithFilter (conditionExpression expr) builder;
                     (awsExpressionBuilder, err) = Build builder
                 in (builder,
                     \<lparr>ExpressionAttributeNames = Names awsExpressionBuilder,
                      ExpressionAttributeValues = Values awsExpressionBuilder,
                      InputTableName = Some (dynamoDBTable expr),
                      FilterExpression = Filter awsExpressionBuilder,
                      Limit = None, ExclusiveStartKey = Map.empty\<rparr>)
               else (builder, input));
            (builder, input) =
              (if \<not> DeepEqual (AnyKeyConditionBuilder (keyCondition expr))
                              (AnyConditionBuilder zeroConditionBuilder)
               then
                 let builder = WithKeyCondition_Builder (keyCondition expr) builder;
                     (awsExpressionBuilder, err) = Build builder
                 in (builder,
                     \<lparr>ExpressionAttributeNames = Names awsExpressionBuilder,
                      ExpressionAttributeValues = Values awsExpressionBuilder,
                      InputTableName = Some (dynamoDBTable expr),
                      FilterExpression = KeyCondition awsExpressionBuilder,
                      Limit = None, ExclusiveStartKey = Map.empty\<rparr>)
               else (builder, input));
            input = (if limit expr \<noteq> None \<and> the (limit expr) \<ge> 1
                     then input\<lparr>Limit := limit expr\<rparr> else input);
            input = (if exclusiveStartKey expr \<noteq> Map.empty
                     then input\<lparr>ExclusiveStartKey := exclusiveStartKey expr\<rparr> else input)
        in (Some input, None))"

section \<open>The provider's batch requests and the handler\<close>

text \<open>
  Modelled from the spec: the request and response shapes of the transport collaborator
  (the provider's client library, not among the sources): "batch-get (accepts up to the
  provider's per-call item limit, returns responses plus any unprocessed keys)" and
  "batch-write (... returns any unprocessed items)".  Requests and responses are keyed by
  table name.  A write request carries a pointer to a delete request (with its key) or to
  a put request (with its item); either pointer can be \<^verbatim>\<open>nil\<close>.  The field
  \<^verbatim>\<open>RequestItems\<close> exists in both inputs and is written \<open>GetRequestItems\<close> and
  \<open>WriteRequestItems\<close> here.
\<close>

record DeleteRequest =
  Key :: DBMap

record PutRequest =
  Item :: DBMap

record WriteRequest =
  DeleteRequest :: "DeleteRequest option"
  PutRequest :: "PutRequest option"

record BatchWriteItemInput =
  WriteRequestItems :: "string \<rightharpoonup> WriteRequest list"

record BatchWriteItemOutput =
  UnprocessedItems :: "string \<rightharpoonup> WriteRequest list"

record KeysAndAttributes =
  Keys :: "DBMap list"

record BatchGetItemInput =
  GetRequestItems :: "string \<rightharpoonup> KeysAndAttributes"

record BatchGetItemOutput =
  Responses :: "string \<rightharpoonup> DBMap list"
  UnprocessedKeys :: "string \<rightharpoonup> KeysAndAttributes"

text \<open>
  \<^verbatim>\<open>type handlerImp struct { config DBConfig; dynamodbiface.DynamoDBAPI }\<close>.
  A transport call returns an error or an output; the output pointer of a call that
  succeeded is taken to be non-\<^verbatim>\<open>nil\<close>.  A bulk write or delete makes at most one
  transport call, so the batch-write transport is a function of the request.  A bulk read
  runs one task per chunk, and a task may call again with the unprocessed keys: the
  batch-get transport is given the number of the task and the number of the call within
  the task, so that every behaviour of a provider, stateful or not, is a value of this
  type.
\<close>

record handlerImp =
  config :: DBConfig
  BatchWriteItemWithContext :: "BatchWriteItemInput \<Rightarrow> error + BatchWriteItemOutput"
  BatchGetItemWithContext :: "nat \<Rightarrow> nat \<Rightarrow> BatchGetItemInput \<Rightarrow> error + BatchGetItemOutput"

text \<open>
  The interface \<^verbatim>\<open>BaseModel\<close> (record codec): the methods of a record of type \<open>'r\<close>.
  \<^verbatim>\<open>Marshal\<close> is taken to return a non-\<^verbatim>\<open>nil\<close> map when it returns no error.
\<close>

record 'r BaseModel =
  Marshal :: "'r \<Rightarrow> error + DBMap"
  Unmarshal :: "'r \<Rightarrow> DBMap \<Rightarrow> error + 'r"
  GetPartSortKey :: "'r \<Rightarrow> DynamoTableOrIndexName option \<Rightarrow> dbPSKeyValues"

section \<open>Bulk delete (command.go)\<close>

text \<open>
  The first loop of \<^verbatim>\<open>BulkDeleteRecords\<close>: one delete request per key, or the error of
  the first key that is refused.
\<close>

fun deleteItems :: "DBConfig \<Rightarrow> dbPSKeyValues list \<Rightarrow> WriteRequest list \<Rightarrow> error + WriteRequest list" where
  "deleteItems cfg [] items = Inr items"
| "deleteItems cfg (key # keys) items =
     (let tableKeys = DBPSKeyNames.truncate (TableInfo cfg);
          expr = WithPartitionKey (PartitionKey tableKeys) (GetPartitionKey key)
                   (NewExpressionWrapper (TableName (TableInfo cfg)))
      in if SortKey tableKeys \<noteq> None \<and> GetSortKey key = None
         then Inl (errors_New ''missing required sort key'')
         else
           let expr = (if SortKey tableKeys \<noteq> None \<and> GetSortKey key \<noteq> None
                       then WithSortingKey (the (SortKey tableKeys)) (the (GetSortKey key)) expr
                       else expr)
           in case CreateQueryKeys expr of
                Inl err \<Rightarrow> Inl err
              | Inr attribute \<Rightarrow>
                  deleteItems cfg keys
                    (items @ [\<lparr>DeleteRequest = Some \<lparr>Key = attribute\<rparr>, PutRequest = None\<rparr>]))"

text \<open>
  Modelled from the spec: \<^verbatim>\<open>dynamodbattribute.Unmarshal(av, &s)\<close> into a Go string
  that starts empty, with the error dropped (the attribute codec of the provider's library
  is not among the sources): "any unprocessed entries are decoded back into key-value
  pairs".  A string attribute gives its value; anything else, also a missing entry
  (a \<^verbatim>\<open>nil\<close> pointer), leaves the string empty.
\<close>

definition unmarshalString :: "AttributeValue option \<Rightarrow> string" where
  "unmarshalString av = (case av of Some (S v) \<Rightarrow> v | _ \<Rightarrow> [])"

text \<open>A lookup in a \<^verbatim>\<open>DBMap\<close>: a missing entry gives the \<^verbatim>\<open>nil\<close> pointer.\<close>

definition lookupAttr :: "DBMap \<Rightarrow> string \<Rightarrow> AttributeValue option" where
  "lookupAttr m k = (case m k of None \<Rightarrow> None | Some v \<Rightarrow> v)"

text \<open>
  The second loop of \<^verbatim>\<open>BulkDeleteRecords\<close>, over the unprocessed items of the table.
  \<^verbatim>\<open>item.DeleteRequest.Key\<close> dereferences the delete request and
  \<^verbatim>\<open>*tabInfo.SortKey\<close> dereferences the sort key name: each panics on \<^verbatim>\<open>nil\<close>.
\<close>

fun decodeUnprocessedKeys ::
  "DBTableInfo \<Rightarrow> WriteRequest list \<Rightarrow> dbPSKeyValues list \<Rightarrow> dbPSKeyValues list outcome" where
  "decodeUnprocessedKeys tabInfo [] unprocessedItems = Returns unprocessedItems"
| "decodeUnprocessedKeys tabInfo (item # rest) unprocessedItems =
     (case DeleteRequest item of
        None \<Rightarrow> Panics
      | Some dr \<Rightarrow>
          let partKey = unmarshalString (lookupAttr (Key dr) (PartitionKey tabInfo))
          in case SortKey tabInfo of
               None \<Rightarrow> Panics
             | Some sortName \<Rightarrow>
                 let sortKeyStr = unmarshalString (lookupAttr (Key dr) sortName);
                     dbKey = \<lparr>partitionKey = partKey,
                              sortKey = (if sortKeyStr \<noteq> [] then Some sortKeyStr else None)\<rparr>
                 in decodeUnprocessedKeys tabInfo rest (unprocessedItems @ [dbKey]))"

text \<open>
  \<^verbatim>\<open>BulkDeleteRecords\<close> returns the key list and the error, or panics; the second
  component of the model is the list of the batch-write requests sent to the transport.
\<close>

definition BulkDeleteRecords ::
  "handlerImp \<Rightarrow> dbPSKeyValues list \<Rightarrow>
   (dbPSKeyValues list \<times> error option) outcome \<times> BatchWriteItemInput list" where
  "BulkDeleteRecords h dbKeys =
     (let tabInfo = TableInfo (config h)
      in case deleteItems (config h) dbKeys [] of
           Inl err \<Rightarrow> (Returns (dbKeys, Some err), [])
         | Inr items \<Rightarrow>
             let input = \<lparr>WriteRequestItems = [TableName tabInfo \<mapsto> items]\<rparr>
             in case BatchWriteItemWithContext h input of
                  Inl err \<Rightarrow> (Returns (dbKeys, Some err), [input])
                | Inr out \<Rightarrow>
                    (case decodeUnprocessedKeys tabInfo
                            (case UnprocessedItems out (TableName tabInfo) of
                               None \<Rightarrow> [] | Some its \<Rightarrow> its) [] of
                       Panics \<Rightarrow> (Panics, [input])
                     | Returns unprocessedItems \<Rightarrow> (Returns (unprocessedItems, None), [input])))"

section \<open>Bulk add and update (command.go)\<close>

text \<open>
  \<^verbatim>\<open>uuid.New().String()\<close> is a source of fresh strings: \<open>uuid k\<close> is the \<open>k\<close>-th
  string it gives, and the number of strings taken so far is passed along.
\<close>

definition createPutItem ::
  "handlerImp \<Rightarrow> 'r BaseModel \<Rightarrow> (nat \<Rightarrow> string) \<Rightarrow> 'r \<Rightarrow> bool \<Rightarrow> bool \<Rightarrow> nat \<Rightarrow>
   error + (DBMap \<times> dbPSKeyValues \<times> nat)" where
  "createPutItem h ops uuid rec createPartKey createSortKey k =
     (case Marshal ops rec of
        Inl err \<Rightarrow> Inl err
      | Inr item \<Rightarrow>
          let tabInfo = TableInfo (config h);
              partKey = GetPartitionKey (GetPartSortKey ops rec None);
              sortKeyPtr = GetSortKey (GetPartSortKey ops rec None)
          in if partKey = [] \<and> \<not> createPartKey
             then Inl (errors_New ''missing required partition key'')
             else
               let (partKey, k) =
                     (if partKey = [] then (uuid k, k + 1) else (partKey, k));
                   item = item(PartitionKey tabInfo \<mapsto> Some (S partKey))
               in if SortKey tabInfo \<noteq> None \<and> sortKeyPtr = None \<and> \<not> createSortKey
                  then Inl (errors_New ''missing required sorting key'')
                  else
                    let (sortKeyPtr, k) =
                          (if SortKey tabInfo \<noteq> None \<and> sortKeyPtr = None
                           then (Some (uuid k), k + 1) else (sortKeyPtr, k));
                        item = (if SortKey tabInfo \<noteq> None \<and> sortKeyPtr \<noteq> None
                                then item(the (SortKey tabInfo) \<mapsto> Some (S (the sortKeyPtr)))
                                else item)
                    in Inr (item, \<lparr>partitionKey = partKey, sortKey = sortKeyPtr\<rparr>, k))"

text \<open>The first loop of \<^verbatim>\<open>batchWrite\<close>, over \<^verbatim>\<open>records[:max]\<close>.\<close>

fun putRequests ::
  "handlerImp \<Rightarrow> 'r BaseModel \<Rightarrow> (nat \<Rightarrow> string) \<Rightarrow> bool \<Rightarrow> bool \<Rightarrow> 'r list \<Rightarrow> nat \<Rightarrow>
   WriteRequest list \<Rightarrow> error + WriteRequest list" where
  "putRequests h ops uuid createPartKey createSortKey [] k requests = Inr requests"
| "putRequests h ops uuid createPartKey createSortKey (rec # recs) k requests =
     (case createPutItem h ops uuid rec createPartKey createSortKey k of
        Inl err \<Rightarrow> Inl err
      | Inr (item, keys, k') \<Rightarrow>
          putRequests h ops uuid createPartKey createSortKey recs k'
            (requests @ [\<lparr>DeleteRequest = None, PutRequest = Some \<lparr>Item = item\<rparr>\<rparr>]))"

text \<open>
  The second loop of \<^verbatim>\<open>batchWrite\<close>, over the unprocessed items of the table:
  \<^verbatim>\<open>item.PutRequest.Item\<close> panics when the put request is \<^verbatim>\<open>nil\<close>; an item that does
  not decode ends the call with the error.
\<close>

fun decodeUnprocessedItems ::
  "'r BaseModel \<Rightarrow> 'r \<Rightarrow> WriteRequest list \<Rightarrow> 'r list \<Rightarrow> (error + 'r list) outcome" where
  "decodeUnprocessedItems ops baseModel [] unprocessedItems = Returns (Inr unprocessedItems)"
| "decodeUnprocessedItems ops baseModel (item # rest) unprocessedItems =
     (case PutRequest item of
        None \<Rightarrow> Panics
      | Some pr \<Rightarrow>
          (case Unmarshal ops baseModel (Item pr) of
             Inl err \<Rightarrow> Returns (Inl err)
           | Inr rec \<Rightarrow> decodeUnprocessedItems ops baseModel rest (unprocessedItems @ [rec])))"

text \<open>
  \<^verbatim>\<open>max := int(math.Min(25, float64(len(records))))\<close>: the conversions are exact for
  every length a slice can have, so \<^verbatim>\<open>max\<close> (\<open>maxLen\<close> here) is the smaller of 25 and the length.
\<close>

definition batchWrite ::
  "handlerImp \<Rightarrow> 'r BaseModel \<Rightarrow> (nat \<Rightarrow> string) \<Rightarrow> 'r \<Rightarrow> 'r list \<Rightarrow> bool \<Rightarrow> bool \<Rightarrow>
   ('r list \<times> error option) outcome \<times> BatchWriteItemInput list" where
  "batchWrite h ops uuid baseModel records createPartKey createSortKey =
     (let maxLen = min 25 (length records)
      in case putRequests h ops uuid createPartKey createSortKey (take maxLen records) 0 [] of
           Inl err \<Rightarrow> (Returns (records, Some err), [])
         | Inr requests \<Rightarrow>
             let bInput = \<lparr>WriteRequestItems = [TableName (TableInfo (config h)) \<mapsto> requests]\<rparr>;
                 unprocessedItems = drop maxLen records
             in case BatchWriteItemWithContext h bInput of
                  Inl err \<Rightarrow> (Returns (records, Some err), [bInput])
                | Inr res \<Rightarrow>
                    (case decodeUnprocessedItems ops baseModel
                            (case UnprocessedItems res (TableName (TableInfo (config h))) of
                               None \<Rightarrow> [] | Some its \<Rightarrow> its) unprocessedItems of
                       Panics \<Rightarrow> (Panics, [bInput])
                     | Returns (Inl err) \<Rightarrow> (Returns (records, Some err), [bInput])
                     | Returns (Inr unprocessedItems) \<Rightarrow>
                         (Returns (unprocessedItems, None), [bInput])))"

definition BulkAddRecords ::
  "handlerImp \<Rightarrow> 'r BaseModel \<Rightarrow> (nat \<Rightarrow> string) \<Rightarrow> 'r \<Rightarrow> bool \<Rightarrow> 'r list \<Rightarrow>
   ('r list \<times> error option) outcome \<times> BatchWriteItemInput list" where
  "BulkAddRecords h ops uuid baseModel createSortKey records =
     batchWrite h ops uuid baseModel records True createSortKey"

section \<open>Bulk read (query.go)\<close>

text \<open>\<^verbatim>\<open>type baseModelsWithErr struct { Records []BaseModel; Err error }\<close>\<close>

record 'r baseModelsWithErr =
  Records :: "'r list"
  Err :: "error option"

text \<open>
  The loop of \<^verbatim>\<open>buildGetRequests\<close>: a key whose \<^verbatim>\<open>CreateQueryKeys\<close> fails is skipped
  (\<^verbatim>\<open>// ignore wrong Ids\<close>).  \<^verbatim>\<open>buildGetRequests\<close> always returns a request, also
  when no key is left.
\<close>

fun buildKeyAttributes :: "DBConfig \<Rightarrow> dbPSKeyValues list \<Rightarrow> DBMap list \<Rightarrow> DBMap list" where
  "buildKeyAttributes cfg [] attributes = attributes"
| "buildKeyAttributes cfg (key # ids) attributes =
     (let dbKeys = DBPSKeyNames.truncate (TableInfo cfg);
          expr = WithPartitionKey (PartitionKey dbKeys) (GetPartitionKey key)
                   (NewExpressionWrapper (TableName (TableInfo cfg)));
          expr = (if SortKey dbKeys \<noteq> None \<and> GetSortKey key \<noteq> None
                  then WithSortingKey (the (SortKey dbKeys)) (the (GetSortKey key)) expr
                  else expr)
      in case CreateQueryKeys expr of
           Inl err \<Rightarrow> buildKeyAttributes cfg ids attributes
         | Inr attribute \<Rightarrow> buildKeyAttributes cfg ids (attributes @ [attribute]))"

definition buildGetRequests :: "handlerImp \<Rightarrow> dbPSKeyValues list \<Rightarrow> BatchGetItemInput" where
  "buildGetRequests h ids =
     \<lparr>GetRequestItems =
        [TableName (TableInfo (config h)) \<mapsto> \<lparr>Keys = buildKeyAttributes (config h) ids []\<rparr>]\<rparr>"

text \<open>
  The closure \<^verbatim>\<open>acc\<close> of \<^verbatim>\<open>loadPage\<close> appends to the captured \<^verbatim>\<open>records\<close>; the
  records decoded before an error stay appended.
\<close>

fun acc :: "'r BaseModel \<Rightarrow> 'r \<Rightarrow> DBMap list \<Rightarrow> 'r list \<Rightarrow> 'r list \<times> error option" where
  "acc ops model [] records = (records, None)"
| "acc ops model (item # rest) records =
     (case Unmarshal ops model item of
        Inl err \<Rightarrow> (records, Some err)
      | Inr mdl \<Rightarrow> acc ops model rest (records @ [mdl]))"

text \<open>
  The closure \<^verbatim>\<open>load\<close> of \<^verbatim>\<open>loadPage\<close>.  \<^verbatim>\<open>buildGetRequests\<close> and the recursive call
  pass a non-\<^verbatim>\<open>nil\<close> request, so the transport is always called.  The recursion on the
  unprocessed keys has no bound: \<open>None\<close> is a \<^verbatim>\<open>load\<close> that never returns.  The result
  is the records, the error and the requests sent, in this order; \<open>task\<close> is the number
  of the chunk task and \<open>k\<close> the number of the call within it.
\<close>

partial_function (option) load ::
  "handlerImp \<Rightarrow> 'r BaseModel \<Rightarrow> 'r \<Rightarrow> nat \<Rightarrow> nat \<Rightarrow> BatchGetItemInput \<Rightarrow> 'r list \<Rightarrow>
   BatchGetItemInput list \<Rightarrow> ('r list \<times> error option \<times> BatchGetItemInput list) option" where
  "load h ops model task k req records sent =
     (case BatchGetItemWithContext h task k req of
        Inl err \<Rightarrow> Some (records, Some err, sent @ [req])
      | Inr res \<Rightarrow>
          (case (if Responses res \<noteq> Map.empty
                 then acc ops model
                        (case Responses res (TableName (TableInfo (config h))) of
                           None \<Rightarrow> [] | Some its \<Rightarrow> its) records
                 else (records, None)) of
             (records', Some err) \<Rightarrow> Some (records', Some err, sent @ [req])
           | (records', None) \<Rightarrow>
               if UnprocessedKeys res \<noteq> Map.empty
               then load h ops model task (k + 1) \<lparr>GetRequestItems = UnprocessedKeys res\<rparr>
                      records' (sent @ [req])
               else Some (records', None, sent @ [req])))"

text \<open>
  A run of a chunk task: the one message it sends on the result channel, and the
  batch-get requests it has sent to the transport by then.
\<close>

record 'r taskRun =
  message :: "'r baseModelsWithErr"
  calls :: "BatchGetItemInput list"

definition loadPage ::
  "handlerImp \<Rightarrow> 'r BaseModel \<Rightarrow> 'r \<Rightarrow> nat \<Rightarrow> BatchGetItemInput \<Rightarrow> 'r taskRun option" where
  "loadPage h ops model task req =
     (case load h ops model task 0 req [] [] of
        None \<Rightarrow> None
      | Some (records, err, sent) \<Rightarrow>
          Some \<lparr>message = \<lparr>Records = records, Err = err\<rparr>, calls = sent\<rparr>)"

text \<open>
  \<^verbatim>\<open>dbKeys[page.Low:page.High]\<close>.  The ranges come from \<open>Partition (len dbKeys) 25\<close>
  and lie within the slice (lemma \<open>Partition_values_bounded\<close>), so the slice expression
  does not panic.
\<close>

definition pageSlice :: "'a list \<Rightarrow> IdxRange \<Rightarrow> 'a list" where
  "pageSlice xs page = take (nat (High page - Low page)) (drop (nat (Low page)) xs)"

text \<open>
  The dispatch loop of \<^verbatim>\<open>GetByIDs\<close> starts one goroutine per page; \<open>chunkTasks\<close> is
  the list of their runs, in the order of the pages (\<open>None\<close>: the task never sends).
\<close>

definition chunkTasks ::
  "handlerImp \<Rightarrow> 'r BaseModel \<Rightarrow> 'r \<Rightarrow> dbPSKeyValues list \<Rightarrow> 'r taskRun option list" where
  "chunkTasks h ops model dbKeys =
     map (\<lambda>(task, page). loadPage h ops model task (buildGetRequests h (pageSlice dbKeys page)))
       (enumerate 0 (Partition (int (length dbKeys)) 25))"

text \<open>
  The tasks share nothing but the result channel \<^verbatim>\<open>ch\<close>.  Its capacity is
  \<^verbatim>\<open>len(pages)\<close>, the number of values buffered in the unbuffered channel \<^verbatim>\<open>pages\<close>,
  which is 0: every send waits for the receiver.  The scheduler decides in which order
  the tasks get to hand over their message; \<open>sched\<close> is that order, a list of task
  numbers, and \<open>arrivals\<close> is the sequence of messages the receiver can take.
\<close>

definition arrivals :: "'r taskRun option list \<Rightarrow> nat list \<Rightarrow> 'r baseModelsWithErr list" where
  "arrivals runs sched =
     concat (map (\<lambda>task. if task < length runs
                          then (case runs ! task of None \<Rightarrow> [] | Some run \<Rightarrow> [message run])
                          else []) sched)"

definition validSchedule :: "nat \<Rightarrow> nat list \<Rightarrow> bool" where
  "validSchedule n sched = (distinct sched \<and> set sched = {0..<n})"

text \<open>
  The receive loop of \<^verbatim>\<open>GetByIDs\<close>:
  \<^verbatim>\<open>for { res, done := <-ch; if res.Err != nil { return nil, res.Err };
         records = append(records, res.Records...); if done { break } }\<close>.
  The second value of a receive is \<^verbatim>\<open>true\<close> when the value was sent on the channel;
  nothing closes \<^verbatim>\<open>ch\<close>, so it is \<^verbatim>\<open>true\<close> at every receive.  With no message left
  to arrive the receive blocks for ever: the result \<open>None\<close>.  A \<^verbatim>\<open>nil\<close> slice is the
  empty list.
\<close>

fun drain :: "'r baseModelsWithErr list \<Rightarrow> 'r list \<Rightarrow> ('r list \<times> error option) option" where
  "drain [] records = None"
| "drain (res # ch) records =
     (let done = True
      in if Err res \<noteq> None then Some ([], Err res)
         else
           let records = records @ Records res
           in if done then Some (records, None) else drain ch records)"

definition GetByIDs ::
  "handlerImp \<Rightarrow> 'r BaseModel \<Rightarrow> 'r \<Rightarrow> dbPSKeyValues list \<Rightarrow> nat list \<Rightarrow>
   ('r list \<times> error option) option" where
  "GetByIDs h ops model dbKeys sched = drain (arrivals (chunkTasks h ops model dbKeys) sched) []"

section \<open>Notions used in the statements about bulk reads\<close>

text \<open>The keys a batch-get request asks for in a table.\<close>

definition requestedKeys :: "string \<Rightarrow> BatchGetItemInput \<Rightarrow> DBMap list" where
  "requestedKeys table req = (case GetRequestItems req table of None \<Rightarrow> [] | Some ka \<Rightarrow> Keys ka)"

text \<open>
  The transport answers the first call of a task, made with the request \<open>req\<close>, with all
  the requested items: no error, no unprocessed keys, one item of the table per requested
  key, and every item decodes.
\<close>

definition answersFirstTry ::
  "handlerImp \<Rightarrow> 'r BaseModel \<Rightarrow> 'r \<Rightarrow> nat \<Rightarrow> BatchGetItemInput \<Rightarrow> bool" where
  "answersFirstTry h ops model task req =
     (\<exists>res items.
        BatchGetItemWithContext h task 0 req = Inr res
      \<and> UnprocessedKeys res = Map.empty
      \<and> Responses res (TableName (TableInfo (config h))) = Some items
      \<and> length items = length (requestedKeys (TableName (TableInfo (config h))) req)
      \<and> (\<forall>item \<in> set items. \<exists>r. Unmarshal ops model item = Inr r))"

section \<open>Notions used in the statements about the update builder\<close>

text \<open>
  The set operations an update builder holds, in the order in which they were added, and
  the set operation that \<^verbatim>\<open>WithUpdateField name v\<close> adds.
\<close>

definition setOperations :: "mapStore \<Rightarrow> UpdateBuilder \<Rightarrow> operationBuilder list" where
  "setOperations st ub =
     (case updateOperations st ub of
        None \<Rightarrow> []
      | Some m \<Rightarrow> (case m setOperation of None \<Rightarrow> [] | Some ops \<Rightarrow> ops))"

definition setField :: "string \<times> goValue \<Rightarrow> operationBuilder" where
  "setField nv = \<lparr>opName = fst nv, opValue = ValueBuilder (snd nv), opMode = setOperation\<rparr>"

section \<open>Test fixtures\<close>

text \<open>
  The configuration \<^verbatim>\<open>cfg\<close> of the repository's tests (table \<^verbatim>\<open>"table"\<close>, partition
  key \<^verbatim>\<open>"partKey"\<close>, sort key \<^verbatim>\<open>"sortKey"\<close>), the same table without a sort key, and
  the mocked transports of the tests.
\<close>

definition cfg :: DBConfig where
  "cfg = \<lparr>TableInfo = \<lparr>PartitionKey = ''partKey'', SortKey = Some ''sortKey'', TableName = ''table''\<rparr>,
          Indexes = Map.empty\<rparr>"

definition cfgNoSortKey :: DBConfig where
  "cfgNoSortKey =
     \<lparr>TableInfo = \<lparr>PartitionKey = ''partKey'', SortKey = None, TableName = ''table''\<rparr>,
      Indexes = Map.empty\<rparr>"

text \<open>
  \<^verbatim>\<open>MockedBatchWrite{Resp, Err}\<close>: the error if there is one, otherwise the response.
\<close>

definition MockedBatchWrite ::
  "BatchWriteItemOutput \<Rightarrow> error option \<Rightarrow> BatchWriteItemInput \<Rightarrow> error + BatchWriteItemOutput" where
  "MockedBatchWrite Resp MockErr req = (case MockErr of Some e \<Rightarrow> Inl e | None \<Rightarrow> Inr Resp)"

text \<open>
  \<^verbatim>\<open>MockedBatchGet{TableName, IgnoreTableName, Resp, Err}\<close>: a request for the table
  with no key gets an empty output; a request that names the ignored table gets the
  response without unprocessed keys; any other request gets the response, or the error
  if there is one.
\<close>

definition MockedBatchGet ::
  "string \<Rightarrow> string \<Rightarrow> BatchGetItemOutput \<Rightarrow> error option \<Rightarrow>
   nat \<Rightarrow> nat \<Rightarrow> BatchGetItemInput \<Rightarrow> error + BatchGetItemOutput" where
  "MockedBatchGet MockTable IgnoreTableName Resp MockErr task k req =
     (if (case GetRequestItems req MockTable of None \<Rightarrow> False | Some ka \<Rightarrow> length (Keys ka) = 0)
      then Inr \<lparr>Responses = Map.empty, UnprocessedKeys = Map.empty\<rparr>
      else
        let Resp = (if GetRequestItems req IgnoreTableName \<noteq> None
                    then Resp\<lparr>UnprocessedKeys := Map.empty\<rparr> else Resp)
        in case MockErr of Some e \<Rightarrow> Inl e | None \<Rightarrow> Inr Resp)"

text \<open>
  A transport that answers a batch-get with one item per requested key of the table (the
  key attributes themselves) and no unprocessed keys, and one that does so for every task
  but the second, whose call fails.
\<close>

definition echoBatchGet :: "string \<Rightarrow> nat \<Rightarrow> nat \<Rightarrow> BatchGetItemInput \<Rightarrow> error + BatchGetItemOutput" where
  "echoBatchGet table task k req =
     Inr \<lparr>Responses = [table \<mapsto> (case GetRequestItems req table of None \<Rightarrow> [] | Some ka \<Rightarrow> Keys ka)],
          UnprocessedKeys = Map.empty\<rparr>"

definition failSecondBatchGet ::
  "string \<Rightarrow> nat \<Rightarrow> nat \<Rightarrow> BatchGetItemInput \<Rightarrow> error + BatchGetItemOutput" where
  "failSecondBatchGet table task k req =
     (if task = 1 then Inl (errors_New ''fake error'') else echoBatchGet table task k req)"

definition testHandler ::
  "DBConfig \<Rightarrow> (BatchWriteItemInput \<Rightarrow> error + BatchWriteItemOutput) \<Rightarrow>
   (nat \<Rightarrow> nat \<Rightarrow> BatchGetItemInput \<Rightarrow> error + BatchGetItemOutput) \<Rightarrow> handlerImp" where
  "testHandler c bw bg =
     \<lparr>config = c, BatchWriteItemWithContext = bw, BatchGetItemWithContext = bg\<rparr>"

text \<open>
  A record type for the examples: a record is its pair of keys; it marshals to its name
  attribute and is decoded from the partition key attribute of an item (decoding never
  fails).
\<close>

definition keyModel :: "dbPSKeyValues BaseModel" where
  "keyModel =
     \<lparr>Marshal = (\<lambda>r. Inr [''name'' \<mapsto> Some (S (partitionKey r))]),
      Unmarshal = (\<lambda>r m. Inr \<lparr>partitionKey = unmarshalString (lookupAttr m ''partKey''),
                                  sortKey = None\<rparr>),
      GetPartSortKey = (\<lambda>r index. r)\<rparr>"

definition testKey :: "nat \<Rightarrow> dbPSKeyValues" where
  "testKey i = \<lparr>partitionKey = replicate (Suc i) (CHR ''k''), sortKey = None\<rparr>"

definition testKeys :: "nat \<Rightarrow> dbPSKeyValues list" where
  "testKeys n = map testKey [0..<n]"

definition testUuid :: "nat \<Rightarrow> string" where
  "testUuid k = replicate (Suc k) (CHR ''u'')"

text \<open>
  The handlers of the examples: the mocked batch-get of the test "with wrong input
  (missing partition key)", the echoing transport, and the one that fails the second
  task; the key of that test, which has no partition key value.
\<close>

definition validItem :: DBMap where
  "validItem = [''name'' \<mapsto> Some (S ''golang''), ''Age'' \<mapsto> Some (N ''12'')]"

definition mockedGetHandler :: handlerImp where
  "mockedGetHandler =
     testHandler cfg (MockedBatchWrite \<lparr>UnprocessedItems = Map.empty\<rparr> None)
       (MockedBatchGet ''table'' []
          \<lparr>Responses = [''table'' \<mapsto> [validItem]], UnprocessedKeys = Map.empty\<rparr> None)"

definition echoHandler :: handlerImp where
  "echoHandler =
     testHandler cfg (MockedBatchWrite \<lparr>UnprocessedItems = Map.empty\<rparr> None) (echoBatchGet ''table'')"

definition failSecondHandler :: handlerImp where
  "failSecondHandler =
     testHandler cfg (MockedBatchWrite \<lparr>UnprocessedItems = Map.empty\<rparr> None)
       (failSecondBatchGet ''table'')"

definition keyWithoutPartitionKey :: dbPSKeyValues where
  "keyWithoutPartitionKey = \<lparr>partitionKey = [], sortKey = Some ''sKey''\<rparr>"

text \<open>
  A compile function for the examples: it formats an update clause as the list of the
  names of the fields it sets, and a filter or key condition as the name of its first
  operand.
\<close>

definition firstOperand :: "OperandBuilder list \<Rightarrow> string" where
  "firstOperand ops =
     (case ops of
        NameBuilder n # rest \<Rightarrow> n
      | KeyBuilder n # rest \<Rightarrow> n
      | _ \<Rightarrow> [])"

definition namesBuild :: compile where
  "namesBuild b =
     (\<lparr>Names = Map.empty, Values = Map.empty,
       Filter = map_option (\<lambda>c. ''filter '' @ firstOperand (operandList c)) (filterSlot b),
       KeyCondition = map_option (\<lambda>c. ''key '' @ firstOperand (keyOperandList c)) (keyConditionSlot b),
       Update = map_option
                  (\<lambda>m. ''SET'' @ concat (map (\<lambda>op. '' '' @ opName op)
                                      (case m setOperation of None \<Rightarrow> [] | Some ops \<Rightarrow> ops)))
                  (updateSlot b)\<rparr>, None)"

definition emptyStore :: mapStore where
  "emptyStore = \<lparr>cells = Map.empty, nextRef = 0\<rparr>"

text \<open>
  The wrappers of the tests "expression with no condition" (keys set, two update fields)
  and "build scan input successfully" (a key condition, a filter condition and a limit).
\<close>

definition testWrapper :: AwsExpressionWrapper where
  "testWrapper =
     WithSortingKey ''UserID'' ''abcd''
       (WithPartitionKey ''partitionID'' ''1234'' (NewExpressionWrapper ''request-test''))"

definition testFields :: "(string \<times> goValue) list" where
  "testFields = [(''UpdatedAt'', GoInt 1700000000), (''CreatedAt'', GoInt 1700000001)]"

definition scanWrapper :: AwsExpressionWrapper where
  "scanWrapper =
     WithLimit 5
       (WithCondition ''abc'' (GoInt 123) GE
          (WithKeyCondition ''partitionID'' (GoInt 123) EQUAL (NewExpressionWrapper ''request-test'')))"

text \<open>
  A handler whose batch-write reports one unprocessed put item, as in the test "with
  unprocessed items", and the test that a record marshals.
\<close>

definition writeHandler :: handlerImp where
  "writeHandler =
     testHandler cfg
       (MockedBatchWrite
          \<lparr>UnprocessedItems =
             [''table'' \<mapsto> [\<lparr>DeleteRequest = None,
                              PutRequest = Some \<lparr>Item = [''partKey'' \<mapsto> Some (S ''test'')]\<rparr>\<rparr>]]\<rparr> None)
       (echoBatchGet ''table'')"

definition marshals :: "'r BaseModel \<Rightarrow> 'r \<Rightarrow> bool" where
  "marshals ops r = (case Marshal ops r of Inl err \<Rightarrow> False | Inr m \<Rightarrow> True)"

section \<open>Properties of the partitioner\<close>

lemma upto_append_from_zero:
  "0 \<le> a \<Longrightarrow> a \<le> b \<Longrightarrow> [0..b - 1] = [0..a - 1] @ [a..b - (1::int)]"
  using upto_split1 [of 0 a "b - 1"] by (cases "a = b") auto

lemma fullPartitions_eq:
  "i \<le> m \<Longrightarrow>
   fullPartitions p m i c =
     (c @ map (\<lambda>k. \<lparr>Low = k * p, High = (k + 1) * p\<rparr>) [i..m - 1], m)"
proof (induction p m i c rule: fullPartitions.induct)
  case (1 p m i c)
  show ?case
  proof (cases "i < m")
    case True
    then have "[i..m - 1] = i # [i + 1..m - 1]"
      by (simp add: upto_rec1)
    with True "1.IH" show ?thesis
      by (subst fullPartitions.simps) simp
  next
    case False
    with "1.prems" have "i = m" by simp
    then show ?thesis
      by (subst fullPartitions.simps) simp
  qed
qed

lemma Partition_pos:
  assumes "0 \<le> n" and "0 < p"
  shows "Partition n p =
           map (\<lambda>k. \<lparr>Low = k * p, High = (k + 1) * p\<rparr>) [0..n div p - 1]
           @ (if n mod p \<noteq> 0 then [\<lparr>Low = (n div p) * p, High = n\<rparr>] else [])"
proof -
  from assms have d: "n sdiv p = n div p"
    by (auto simp: signed_divide_int_def sgn_if abs_if)
  from assms have m: "n smod p = n mod p"
    by (simp add: smod_mod_positive)
  from assms have "0 \<le> n div p"
    by (simp add: pos_imp_zdiv_nonneg_iff)
  then show ?thesis
    using assms by (simp add: Partition_def d m fullPartitions_eq)
qed

lemma concat_full_ranges:
  "0 < p \<Longrightarrow> 0 \<le> m \<Longrightarrow>
   concat (map (\<lambda>k. [k * p..(k + 1) * p - 1]) [0..m - 1]) = [0..m * p - 1]"
proof (induction "nat m" arbitrary: m)
  case 0
  then show ?case by simp
next
  case (Suc x)
  then have m: "0 < m" and x: "x = nat (m - 1)" by simp_all
  from m have split: "[0..m - 1] = [0..(m - 1) - 1] @ [m - 1]"
    by (simp add: upto_rec2)
  from m have "0 \<le> m - 1" by simp
  from Suc.hyps(1) [OF x Suc.prems(1) this]
  have IH: "concat (map (\<lambda>k. [k * p..(k + 1) * p - 1]) [0..(m - 1) - 1])
            = [0..(m - 1) * p - 1]" .
  from Suc.prems m have le1: "0 \<le> (m - 1) * p" and le2: "(m - 1) * p \<le> m * p"
    by (simp_all add: mult_right_mono)
  have app: "[0..m * p - 1] = [0..(m - 1) * p - 1] @ [(m - 1) * p..m * p - 1]"
    using le1 le2 by (rule upto_append_from_zero)
  have "concat (map (\<lambda>k. [k * p..(k + 1) * p - 1]) [0..m - 1])
        = concat (map (\<lambda>k. [k * p..(k + 1) * p - 1]) [0..(m - 1) - 1])
          @ [(m - 1) * p..(m - 1 + 1) * p - 1]"
    by (subst split) simp
  also have "\<dots> = [0..(m - 1) * p - 1] @ [(m - 1) * p..m * p - 1]"
    by (simp only: IH) simp
  finally show ?case
    by (simp only: app)
qed

lemma Partition_concat:
  assumes "0 \<le> n" and "0 < p"
  shows "concat (map (\<lambda>r. [Low r..High r - 1]) (Partition n p)) = [0..n - 1]"
proof -
  from assms have q: "0 \<le> n div p"
    by (simp add: pos_imp_zdiv_nonneg_iff)
  have full: "concat (map (\<lambda>r. [Low r..High r - 1])
                (map (\<lambda>k. \<lparr>Low = k * p, High = (k + 1) * p\<rparr>) [0..n div p - 1]))
              = [0..n div p * p - 1]"
    using concat_full_ranges [OF assms(2) q] by (simp add: o_def)
  show ?thesis
  proof (cases "n mod p = 0")
    case True
    then have "n div p * p = n" by auto
    with full show ?thesis
      by (simp add: Partition_pos [OF assms] True)
  next
    case False
    have le: "n div p * p \<le> n"
      using div_mult_mod_eq [of n p] pos_mod_sign [of p n] assms by linarith
    have "0 \<le> n div p * p" using q assms by simp
    then have "[0..n - 1] = [0..n div p * p - 1] @ [n div p * p..n - 1]"
      using le by (rule upto_append_from_zero)
    with full show ?thesis
      by (simp add: Partition_pos [OF assms] False)
  qed
qed

lemma Partition_length:
  assumes "0 \<le> n" and "0 < p"
  shows "int (length (Partition n p)) = \<lceil>real_of_int n / real_of_int p\<rceil>"
proof -
  from assms have q: "0 \<le> n div p"
    by (simp add: pos_imp_zdiv_nonneg_iff)
  have c: "\<lceil>real_of_int n / real_of_int p\<rceil> = n div p + (if n mod p \<noteq> 0 then 1 else 0)"
    using assms by (simp add: ceiling_divide_eq_div zdiv_zminus1_eq_if)
  show ?thesis
    using q by (simp add: Partition_pos [OF assms] c)
qed

lemma Partition_widths:
  assumes "0 \<le> n" and "0 < p" and "r \<in> set (Partition n p)"
  shows "Low r < High r \<and> High r - Low r \<le> p"
proof -
  have le: "n div p * p \<le> n"
    using div_mult_mod_eq [of n p] pos_mod_sign [of p n] assms by linarith
  have lt: "n < n div p * p + p"
    using div_mult_mod_eq [of n p] pos_mod_bound [of p n] assms by linarith
  have "n div p * p = n \<Longrightarrow> n mod p = 0"
    using div_mult_mod_eq [of n p] by linarith
  then have ne: "n mod p \<noteq> 0 \<Longrightarrow> n div p * p \<noteq> n"
    by blast
  from assms(3) show ?thesis
    using assms(2) le lt ne
    by (auto simp: Partition_pos [OF assms(1,2)] algebra_simps split: if_splits)
qed

lemma Partition_values_bounded:
  assumes "0 \<le> n" and "0 < p" and "r \<in> set (Partition n p)"
  shows "0 \<le> Low r \<and> Low r \<le> n \<and> 0 \<le> High r \<and> High r \<le> n"
proof -
  have le: "n div p * p \<le> n"
    using div_mult_mod_eq [of n p] pos_mod_sign [of p n] assms by linarith
  from assms have q: "0 \<le> n div p"
    by (simp add: pos_imp_zdiv_nonneg_iff)
  have step: "(k + 1) * p \<le> n" if "0 \<le> k" and "k \<le> n div p - 1" for k
  proof -
    from that have "(k + 1) * p \<le> n div p * p"
      using assms(2) by (intro mult_right_mono) simp_all
    with le show ?thesis by simp
  qed
  have low: "0 \<le> k * p \<and> k * p \<le> n" if "0 \<le> k" and "k \<le> n div p - 1" for k
  proof -
    from step [OF that] assms(2) have "k * p \<le> n" by (simp add: algebra_simps)
    with that assms(2) show ?thesis by simp
  qed
  have high: "0 \<le> (k + 1) * p" if "0 \<le> k" for k
    using that assms(2) by simp
  from assms(3) show ?thesis
    using le q assms(1,2) step low high
    by (auto simp: Partition_pos [OF assms(1,2)] split: if_splits)
qed

lemma Partition_29_25:
  "Partition 29 25 = [\<lparr>Low = 0, High = 25\<rparr>, \<lparr>Low = 25, High = 29\<rparr>]"
  by (simp add: Partition_pos upto_rec1)

text \<open>
  Claim C6.  For a collection length \<open>n \<ge> 0\<close> and a partition size \<open>p > 0\<close>,
  \<open>Partition n p\<close> yields exactly \<open>\<lceil>n / p\<rceil>\<close> ranges, each non-empty and of
  width at most \<open>p\<close>, and the indices of the ranges, written one range after the
  other in the order of production, are exactly \<open>0, 1, \<dots>, n - 1\<close>: the ranges cover
  \<open>[0, n)\<close> once, in order, with no gap and no overlap.  For \<open>n = 29\<close>, \<open>p = 25\<close>
  the ranges are \<open>[0, 25)\<close> and \<open>[25, 29)\<close>.  For \<open>p \<le> 0\<close> no range is produced,
  whatever \<open>n\<close> is.
\<close>

theorem C6_Partition_covers:
  "(0 \<le> n \<and> 0 < p \<longrightarrow>
      int (length (Partition n p)) = \<lceil>real_of_int n / real_of_int p\<rceil>
    \<and> (\<forall>r \<in> set (Partition n p). Low r < High r \<and> High r - Low r \<le> p)
    \<and> concat (map (\<lambda>r. [Low r..High r - 1]) (Partition n p)) = [0..n - 1])
   \<and> (p \<le> 0 \<longrightarrow> Partition n p = [])
   \<and> Partition 29 25 = [\<lparr>Low = 0, High = 25\<rparr>, \<lparr>Low = 25, High = 29\<rparr>]"
  using Partition_length [of n p] Partition_widths [of n p] Partition_concat [of n p]
    Partition_29_25
  by (auto simp: Partition_def)

theorem C6_Partition_covers_witness:
  "(0::int) \<le> 54 \<and> (0::int) < 25
   \<and> int (length (Partition 54 25)) = \<lceil>real_of_int 54 / real_of_int 25\<rceil>
   \<and> Partition 54 25 = [\<lparr>Low = 0, High = 25\<rparr>, \<lparr>Low = 25, High = 50\<rparr>, \<lparr>Low = 50, High = 54\<rparr>]
   \<and> concat (map (\<lambda>r. [Low r..High r - 1]) (Partition 54 25)) = [0..54 - 1]
   \<and> (-3::int) \<le> 0 \<and> Partition 54 (-3) = []"
proof -
  have h: "(0::int) \<le> 54 \<and> (0::int) < 25" by simp
  have z: "(-3::int) \<le> 0" by simp
  have l: "Partition 54 25 = [\<lparr>Low = 0, High = 25\<rparr>, \<lparr>Low = 25, High = 50\<rparr>, \<lparr>Low = 50, High = 54\<rparr>]"
    by (simp add: Partition_pos upto_rec1)
  show ?thesis
    using h z C6_Partition_covers [of 54 25] C6_Partition_covers [of 54 "-3"]
    unfolding l by simp
qed

section \<open>Bulk delete\<close>

lemma deleteItems_missing_sort_key:
  "SortKey (TableInfo c) \<noteq> None \<Longrightarrow> key \<in> set dbKeys \<Longrightarrow> GetSortKey key = None \<Longrightarrow>
   \<exists>err. deleteItems c dbKeys items = Inl err"
proof (induction dbKeys arbitrary: items)
  case Nil
  then show ?case by simp
next
  case (Cons k ks)
  show ?case
  proof (cases "GetSortKey k = None")
    case True
    with Cons.prems(1) show ?thesis
      by (simp add: DBPSKeyNames.truncate_def)
  next
    case False
    with Cons.prems have "key \<in> set ks" by auto
    from Cons.IH [OF Cons.prems(1) this Cons.prems(3)] False Cons.prems(1)
    show ?thesis
      by (auto simp: Let_def split: sum.splits)
  qed
qed

text \<open>
  Claim C8.  When the table declares a sort key and at least one of the keys given to
  \<^verbatim>\<open>BulkDeleteRecords\<close> has no sort key value, the call returns an error together with
  the input key list as it was given, and sends no batch-write request.
\<close>

theorem C8_BulkDelete_missing_sort_key:
  assumes "SortKey (TableInfo (config h)) \<noteq> None"
    and "key \<in> set dbKeys"
    and "GetSortKey key = None"
  shows "\<exists>err. BulkDeleteRecords h dbKeys = (Returns (dbKeys, Some err), [])"
proof -
  from deleteItems_missing_sort_key [OF assms]
  obtain err where "deleteItems (config h) dbKeys [] = Inl err" by blast
  then show ?thesis
    by (simp add: BulkDeleteRecords_def)
qed

theorem C8_BulkDelete_missing_sort_key_witness:
  "SortKey (TableInfo (config (testHandler cfg (MockedBatchWrite \<lparr>UnprocessedItems = Map.empty\<rparr> None)
                                 (echoBatchGet ''table'')))) \<noteq> None
   \<and> \<lparr>partitionKey = ''part-key'', sortKey = None\<rparr>
       \<in> set [\<lparr>partitionKey = ''a'', sortKey = Some ''s''\<rparr>, \<lparr>partitionKey = ''part-key'', sortKey = None\<rparr>]
   \<and> GetSortKey \<lparr>partitionKey = ''part-key'', sortKey = None\<rparr> = None
   \<and> (\<exists>err. BulkDeleteRecords
               (testHandler cfg (MockedBatchWrite \<lparr>UnprocessedItems = Map.empty\<rparr> None)
                  (echoBatchGet ''table''))
               [\<lparr>partitionKey = ''a'', sortKey = Some ''s''\<rparr>, \<lparr>partitionKey = ''part-key'', sortKey = None\<rparr>]
             = (Returns ([\<lparr>partitionKey = ''a'', sortKey = Some ''s''\<rparr>,
                          \<lparr>partitionKey = ''part-key'', sortKey = None\<rparr>], Some err), []))"
proof -
  have a: "SortKey (TableInfo (config (testHandler cfg (MockedBatchWrite \<lparr>UnprocessedItems = Map.empty\<rparr> None)
                                 (echoBatchGet ''table'')))) \<noteq> None"
    by (simp add: testHandler_def cfg_def)
  have b: "\<lparr>partitionKey = ''part-key'', sortKey = None\<rparr>
       \<in> set [\<lparr>partitionKey = ''a'', sortKey = Some ''s''\<rparr>, \<lparr>partitionKey = ''part-key'', sortKey = None\<rparr>]"
    by simp
  have c: "GetSortKey \<lparr>partitionKey = ''part-key'', sortKey = None\<rparr> = None"
    by (simp add: GetSortKey_def)
  from a b c C8_BulkDelete_missing_sort_key [OF a b c] show ?thesis
    by blast
qed

text \<open>
  Claim C10.  When the table configuration declares no sort key and the provider's
  answer to the batch-write request of \<^verbatim>\<open>BulkDeleteRecords\<close> reports at least one
  unprocessed item for the table, decoding the unprocessed items dereferences the
  \<^verbatim>\<open>nil\<close> sort key name: the call panics and returns no key list.
\<close>

theorem C10_BulkDelete_panics_without_sort_key:
  assumes "SortKey (TableInfo (config h)) = None"
    and "snd (BulkDeleteRecords h dbKeys) = [input]"
    and "BatchWriteItemWithContext h input = Inr out"
    and "UnprocessedItems out (TableName (TableInfo (config h))) = Some (item # rest)"
  shows "fst (BulkDeleteRecords h dbKeys) = Panics"
proof (cases "deleteItems (config h) dbKeys []")
  case (Inl err)
  with assms(2) show ?thesis
    by (simp add: BulkDeleteRecords_def)
next
  case (Inr items)
  with assms(2)
  have "input = \<lparr>WriteRequestItems = [TableName (TableInfo (config h)) \<mapsto> items]\<rparr>"
    by (auto simp: BulkDeleteRecords_def Let_def split: sum.splits outcome.splits)
  with Inr assms(1,3,4) show ?thesis
    by (simp add: BulkDeleteRecords_def Let_def split: option.splits)
qed

theorem C10_BulkDelete_panics_without_sort_key_witness:
  "SortKey (TableInfo (config (testHandler cfgNoSortKey
      (MockedBatchWrite \<lparr>UnprocessedItems = [''table'' \<mapsto>
          [\<lparr>DeleteRequest = Some \<lparr>Key = [''partKey'' \<mapsto> Some (S ''test'')]\<rparr>, PutRequest = None\<rparr>]]\<rparr> None)
      (echoBatchGet ''table'')))) = None
   \<and> snd (BulkDeleteRecords (testHandler cfgNoSortKey
      (MockedBatchWrite \<lparr>UnprocessedItems = [''table'' \<mapsto>
          [\<lparr>DeleteRequest = Some \<lparr>Key = [''partKey'' \<mapsto> Some (S ''test'')]\<rparr>, PutRequest = None\<rparr>]]\<rparr> None)
      (echoBatchGet ''table'')) [\<lparr>partitionKey = ''test'', sortKey = None\<rparr>])
     = [\<lparr>WriteRequestItems = [''table'' \<mapsto>
          [\<lparr>DeleteRequest = Some \<lparr>Key = [''partKey'' \<mapsto> Some (S ''test'')]\<rparr>, PutRequest = None\<rparr>]]\<rparr>]
   \<and> fst (BulkDeleteRecords (testHandler cfgNoSortKey
      (MockedBatchWrite \<lparr>UnprocessedItems = [''table'' \<mapsto>
          [\<lparr>DeleteRequest = Some \<lparr>Key = [''partKey'' \<mapsto> Some (S ''test'')]\<rparr>, PutRequest = None\<rparr>]]\<rparr> None)
      (echoBatchGet ''table'')) [\<lparr>partitionKey = ''test'', sortKey = None\<rparr>]) = Panics"
proof -
  let ?out = "\<lparr>UnprocessedItems = [''table'' \<mapsto>
          [\<lparr>DeleteRequest = Some \<lparr>Key = [''partKey'' \<mapsto> Some (S ''test'')]\<rparr>, PutRequest = None\<rparr>]]\<rparr>"
  let ?h = "testHandler cfgNoSortKey (MockedBatchWrite ?out None) (echoBatchGet ''table'')"
  let ?input = "\<lparr>WriteRequestItems = [''table'' \<mapsto>
          [\<lparr>DeleteRequest = Some \<lparr>Key = [''partKey'' \<mapsto> Some (S ''test'')]\<rparr>, PutRequest = None\<rparr>]]\<rparr>"
  have a: "SortKey (TableInfo (config ?h)) = None"
    by (simp add: testHandler_def cfgNoSortKey_def)
  have b: "snd (BulkDeleteRecords ?h [\<lparr>partitionKey = ''test'', sortKey = None\<rparr>]) = [?input]"
    by (simp add: BulkDeleteRecords_def testHandler_def cfgNoSortKey_def MockedBatchWrite_def
        DBPSKeyNames.truncate_def WithPartitionKey_def NewExpressionWrapper_def CreateQueryKeys_def
        GetPartitionKey_def GetSortKey_def Let_def)
  have c: "BatchWriteItemWithContext ?h ?input = Inr ?out"
    by (simp add: testHandler_def MockedBatchWrite_def)
  have d: "UnprocessedItems ?out (TableName (TableInfo (config ?h)))
           = Some (\<lparr>DeleteRequest = Some \<lparr>Key = [''partKey'' \<mapsto> Some (S ''test'')]\<rparr>, PutRequest = None\<rparr> # [])"
    by (simp add: testHandler_def cfgNoSortKey_def)
  from a b C10_BulkDelete_panics_without_sort_key [OF a b c d] show ?thesis
    by blast
qed

section \<open>Bulk read\<close>

lemma buildKeyAttributes_step:
  "buildKeyAttributes c (key # ids) attrs =
     buildKeyAttributes c ids (attrs @ buildKeyAttributes c [key] [])"
  by (simp add: Let_def split: sum.splits)

lemma buildKeyAttributes_skipped:
  "\<forall>key \<in> set ids. buildKeyAttributes c [key] [] = [] \<Longrightarrow> buildKeyAttributes c ids attrs = attrs"
proof (induction ids arbitrary: attrs)
  case Nil
  then show ?case by simp
next
  case (Cons key ids)
  from Cons.prems have "buildKeyAttributes c [key] [] = []" by simp
  with Cons show ?case
    by (simp add: buildKeyAttributes_step [of c key ids] del: buildKeyAttributes.simps)
qed

lemma CreateQueryKeys_ok:
  "pn \<noteq> [] \<Longrightarrow> pv \<noteq> [] \<Longrightarrow>
   \<exists>m. CreateQueryKeys (WithPartitionKey pn pv (NewExpressionWrapper t)) = Inr m"
  by (simp add: CreateQueryKeys_def WithPartitionKey_def NewExpressionWrapper_def Let_def)

lemma CreateQueryKeys_sort_ok:
  "pn \<noteq> [] \<Longrightarrow> pv \<noteq> [] \<Longrightarrow>
   \<exists>m. CreateQueryKeys (WithSortingKey sn sv (WithPartitionKey pn pv (NewExpressionWrapper t))) = Inr m"
  by (simp add: CreateQueryKeys_def WithPartitionKey_def WithSortingKey_def NewExpressionWrapper_def Let_def)

lemma buildKeyAttributes_single:
  "PartitionKey (TableInfo c) \<noteq> [] \<Longrightarrow> GetPartitionKey key \<noteq> [] \<Longrightarrow>
   length (buildKeyAttributes c [key] []) = 1"
  using CreateQueryKeys_ok [of "PartitionKey (TableInfo c)" "GetPartitionKey key" "TableName (TableInfo c)"]
    CreateQueryKeys_sort_ok [of "PartitionKey (TableInfo c)" "GetPartitionKey key"
      "the (SortKey (TableInfo c))" "the (GetSortKey key)" "TableName (TableInfo c)"]
  by (auto simp: Let_def DBPSKeyNames.truncate_def split: sum.splits)

lemma buildKeyAttributes_length:
  "PartitionKey (TableInfo c) \<noteq> [] \<Longrightarrow> \<forall>key \<in> set ids. GetPartitionKey key \<noteq> [] \<Longrightarrow>
   length (buildKeyAttributes c ids attrs) = length attrs + length ids"
proof (induction ids arbitrary: attrs)
  case Nil
  then show ?case by simp
next
  case (Cons key ids)
  from Cons.prems have k: "GetPartitionKey key \<noteq> []" by simp
  from Cons.prems have rest: "\<forall>key \<in> set ids. GetPartitionKey key \<noteq> []" by simp
  show ?case
    using Cons.IH [OF Cons.prems(1) rest] buildKeyAttributes_single [OF Cons.prems(1) k]
    by (simp add: buildKeyAttributes_step [of c key ids] del: buildKeyAttributes.simps)
qed

lemma acc_all_decode:
  "\<forall>item \<in> set items. \<exists>r. Unmarshal ops model item = Inr r \<Longrightarrow>
   \<exists>recs. acc ops model items records = (records @ recs, None) \<and> length recs = length items"
proof (induction items arbitrary: records)
  case Nil
  then show ?case by simp
next
  case (Cons item items)
  from Cons.prems obtain r where r: "Unmarshal ops model item = Inr r" by auto
  from Cons.prems have "\<forall>item \<in> set items. \<exists>r. Unmarshal ops model item = Inr r" by simp
  from Cons.IH [OF this, of "records @ [r]"]
  obtain recs where "acc ops model items (records @ [r]) = ((records @ [r]) @ recs, None)"
    and "length recs = length items" by blast
  then have "acc ops model (item # items) records = (records @ (r # recs), None) \<and> length (r # recs) = length (item # items)"
    using r by simp
  then show ?case by blast
qed

lemma load_first_try:
  assumes "BatchGetItemWithContext h task 0 req = Inr res"
    and "UnprocessedKeys res = Map.empty"
    and "Responses res (TableName (TableInfo (config h))) = Some items"
    and "\<forall>item \<in> set items. \<exists>r. Unmarshal ops model item = Inr r"
  shows "\<exists>recs. load h ops model task 0 req [] [] = Some (recs, None, [req]) \<and> length recs = length items"
proof -
  from acc_all_decode [OF assms(4), of "[]"]
  obtain recs where a: "acc ops model items [] = (recs, None)" and l: "length recs = length items"
    by auto
  from assms(3) have ne: "Responses res \<noteq> Map.empty" by auto
  have "load h ops model task 0 req [] [] = Some (recs, None, [req])"
    by (subst load.simps) (simp add: assms(1,2,3) a ne)
  with l show ?thesis by blast
qed

lemma load_no_items:
  assumes "BatchGetItemWithContext h task 0 req = Inr res"
    and "UnprocessedKeys res = Map.empty"
    and "case Responses res (TableName (TableInfo (config h))) of None \<Rightarrow> True | Some its \<Rightarrow> its = []"
  shows "load h ops model task 0 req [] [] = Some ([], None, [req])"
  using assms(3)
  by (subst load.simps) (simp add: assms(1,2) split: option.splits)

lemma load_error:
  assumes "BatchGetItemWithContext h task 0 req = Inl e"
  shows "load h ops model task 0 req [] [] = Some ([], Some e, [req])"
  by (subst load.simps) (simp add: assms)

lemma arrivals_Cons:
  "task < length runs \<Longrightarrow> runs ! task = Some run \<Longrightarrow>
   arrivals runs (task # rest) = message run # arrivals runs rest"
  by (simp add: arrivals_def)

lemma drain_first:
  "drain (res # ch) [] = (if Err res \<noteq> None then Some ([], Err res) else Some (Records res, None))"
  by simp

lemma Partition_0: "Partition 0 25 = []"
  by (simp add: Partition_pos)

lemma concat_map_Nil: "concat (map (\<lambda>x. []) xs) = []"
  by (induction xs) simp_all

text \<open>
  Claim C9.  When \<^verbatim>\<open>GetByIDs\<close> is called with an empty key list, no chunk task is
  dispatched, no message ever arrives on the result channel, and the receive of the drain
  loop blocks for ever: the call never returns, whatever the scheduler does.
\<close>

theorem C9_GetByIDs_empty_never_returns:
  "chunkTasks h ops model [] = [] \<and> arrivals (chunkTasks h ops model []) sched = []
   \<and> GetByIDs h ops model [] sched = None"
  by (simp add: GetByIDs_def chunkTasks_def Partition_0 arrivals_def concat_map_Nil)

lemma validSchedule_nonempty:
  "validSchedule n sched \<Longrightarrow> 0 < n \<Longrightarrow> \<exists>t rest. sched = t # rest \<and> t < n"
  by (cases sched) (auto simp: validSchedule_def)

lemma validSchedule_2:
  assumes "validSchedule 2 sched"
  shows "sched = [0, 1] \<or> sched = [1, 0]"
proof -
  from assms have d: "distinct sched" and s: "set sched = {0..<2}"
    by (simp_all add: validSchedule_def)
  from distinct_card [OF d] s have "length sched = 2" by simp
  then obtain a b where ab: "sched = [a, b]"
    by (cases sched; cases "tl sched") auto
  have eq: "{0..<2::nat} = {0, 1}" by auto
  from ab d s have "a \<noteq> b" and "{a, b} = {0, 1}" by (simp_all add: eq)
  then have "(a = 0 \<and> b = 1) \<or> (a = 1 \<and> b = 0)"
    by (auto simp: doubleton_eq_iff)
  with ab show ?thesis by auto
qed

lemma set_pageSlice: "set (pageSlice xs page) \<subseteq> set xs"
  unfolding pageSlice_def
  by (meson set_take_subset set_drop_subset subset_trans)

lemma Partition_nonempty:
  assumes "0 < n"
  shows "Partition n 25 \<noteq> []"
proof
  assume "Partition n 25 = []"
  with Partition_concat [of n 25] assms have "[0..n - 1] = []" by simp
  with assms show False by simp
qed

lemma chunkTasks_all_skipped:
  assumes "\<forall>key \<in> set dbKeys. buildKeyAttributes (config h) [key] [] = []"
    and "\<forall>task. \<exists>res.
           BatchGetItemWithContext h task 0
             \<lparr>GetRequestItems = [TableName (TableInfo (config h)) \<mapsto> \<lparr>Keys = []\<rparr>]\<rparr> = Inr res
           \<and> UnprocessedKeys res = Map.empty
           \<and> (case Responses res (TableName (TableInfo (config h))) of
                None \<Rightarrow> True | Some its \<Rightarrow> its = [])"
  shows "chunkTasks h ops model dbKeys =
           replicate (length (Partition (int (length dbKeys)) 25))
             (Some \<lparr>message = \<lparr>Records = [], Err = None\<rparr>,
                    calls = [\<lparr>GetRequestItems = [TableName (TableInfo (config h)) \<mapsto> \<lparr>Keys = []\<rparr>]\<rparr>]\<rparr>)"
proof -
  let ?req = "\<lparr>GetRequestItems = [TableName (TableInfo (config h)) \<mapsto> \<lparr>Keys = []\<rparr>]\<rparr>"
  let ?run = "Some \<lparr>message = \<lparr>Records = [], Err = None\<rparr>, calls = [?req]\<rparr>"
  have req: "buildGetRequests h (pageSlice dbKeys page) = ?req" for page
  proof -
    from assms(1) set_pageSlice [of dbKeys page]
    have "\<forall>key \<in> set (pageSlice dbKeys page). buildKeyAttributes (config h) [key] [] = []"
      by blast
    from buildKeyAttributes_skipped [OF this, of "[]"] show ?thesis
      by (simp add: buildGetRequests_def)
  qed
  have run: "loadPage h ops model task ?req = ?run" for task
  proof -
    from assms(2) obtain res where
      "BatchGetItemWithContext h task 0 ?req = Inr res" "UnprocessedKeys res = Map.empty"
      "case Responses res (TableName (TableInfo (config h))) of None \<Rightarrow> True | Some its \<Rightarrow> its = []"
      by blast
    from load_no_items [OF this, where ops = ops and model = model] show ?thesis
      by (simp add: loadPage_def)
  qed
  have "chunkTasks h ops model dbKeys
        = map (\<lambda>p. ?run) (enumerate 0 (Partition (int (length dbKeys)) 25))"
    by (simp add: chunkTasks_def req run case_prod_unfold)
  then show ?thesis
    by (simp add: map_replicate_const)
qed

text \<open>
  Claim C3, as amended.  When the key list is not empty and every key fails key
  compilation, every chunk task still sends one batch-get request, with an empty key list
  for the table.  When the transport answers these requests with no error, no unprocessed
  keys and no item of the table, the result is an empty record list with a \<^verbatim>\<open>nil\<close>
  error, whatever the order in which the tasks complete.
\<close>

theorem C3_GetByIDs_all_keys_skipped:
  assumes "dbKeys \<noteq> []"
    and "\<forall>key \<in> set dbKeys. buildKeyAttributes (config h) [key] [] = []"
    and "\<forall>task. \<exists>res.
           BatchGetItemWithContext h task 0
             \<lparr>GetRequestItems = [TableName (TableInfo (config h)) \<mapsto> \<lparr>Keys = []\<rparr>]\<rparr> = Inr res
           \<and> UnprocessedKeys res = Map.empty
           \<and> (case Responses res (TableName (TableInfo (config h))) of
                None \<Rightarrow> True | Some its \<Rightarrow> its = [])"
    and "validSchedule (length (chunkTasks h ops model dbKeys)) sched"
  shows "chunkTasks h ops model dbKeys \<noteq> []
    \<and> (\<forall>run \<in> set (chunkTasks h ops model dbKeys).
         run = Some \<lparr>message = \<lparr>Records = [], Err = None\<rparr>,
                      calls = [\<lparr>GetRequestItems = [TableName (TableInfo (config h)) \<mapsto> \<lparr>Keys = []\<rparr>]\<rparr>]\<rparr>)
    \<and> GetByIDs h ops model dbKeys sched = Some ([], None)"
proof -
  let ?run = "\<lparr>message = \<lparr>Records = [], Err = None\<rparr>,
               calls = [\<lparr>GetRequestItems = [TableName (TableInfo (config h)) \<mapsto> \<lparr>Keys = []\<rparr>]\<rparr>]\<rparr>"
  let ?n = "length (Partition (int (length dbKeys)) 25)"
  have runs: "chunkTasks h ops model dbKeys = replicate ?n (Some ?run)"
    using chunkTasks_all_skipped [OF assms(2,3)] .
  from assms(1) have "Partition (int (length dbKeys)) 25 \<noteq> []"
    by (intro Partition_nonempty) simp
  then have n: "0 < ?n" by simp
  from assms(4) have "validSchedule ?n sched" by (simp add: runs)
  from validSchedule_nonempty [OF this n] obtain t rest where
    sched: "sched = t # rest" and t: "t < ?n" by blast
  have "arrivals (chunkTasks h ops model dbKeys) sched
        = message ?run # arrivals (chunkTasks h ops model dbKeys) rest"
    unfolding sched by (rule arrivals_Cons) (simp_all add: runs t)
  then have "GetByIDs h ops model dbKeys sched = Some ([], None)"
    by (simp add: GetByIDs_def)
  with n runs show ?thesis by simp
qed


lemma requestedKeys_buildGetRequests:
  "requestedKeys (TableName (TableInfo (config h))) (buildGetRequests h ids)
   = buildKeyAttributes (config h) ids []"
  by (simp add: requestedKeys_def buildGetRequests_def)

lemma loadPage_first_try:
  assumes "PartitionKey (TableInfo (config h)) \<noteq> []"
    and "\<forall>key \<in> set ids. GetPartitionKey key \<noteq> []"
    and "answersFirstTry h ops model task (buildGetRequests h ids)"
  shows "\<exists>recs. loadPage h ops model task (buildGetRequests h ids)
           = Some \<lparr>message = \<lparr>Records = recs, Err = None\<rparr>, calls = [buildGetRequests h ids]\<rparr>
         \<and> length recs = length ids
         \<and> length (requestedKeys (TableName (TableInfo (config h))) (buildGetRequests h ids)) = length ids"
proof -
  let ?req = "buildGetRequests h ids"
  let ?T = "TableName (TableInfo (config h))"
  have len: "length (requestedKeys ?T ?req) = length ids"
    using buildKeyAttributes_length [OF assms(1,2), of "[]"]
    by (simp add: requestedKeys_buildGetRequests)
  from assms(3) obtain res items where
    res: "BatchGetItemWithContext h task 0 ?req = Inr res"
    and un: "UnprocessedKeys res = Map.empty"
    and its: "Responses res ?T = Some items"
    and li: "length items = length (requestedKeys ?T ?req)"
    and dec: "\<forall>item \<in> set items. \<exists>r. Unmarshal ops model item = Inr r"
    unfolding answersFirstTry_def by blast
  from load_first_try [OF res un its dec] obtain recs where
    "load h ops model task 0 ?req [] [] = Some (recs, None, [?req])" "length recs = length items"
    by blast
  with li len show ?thesis
    by (simp add: loadPage_def)
qed

lemma Partition_26_25:
  "Partition 26 25 = [\<lparr>Low = 0, High = 25\<rparr>, \<lparr>Low = 25, High = 26\<rparr>]"
  by (simp add: Partition_pos upto_rec1)

lemma chunkTasks_two_pages:
  assumes "Partition (int (length dbKeys)) 25 = [\<lparr>Low = 0, High = 25\<rparr>, \<lparr>Low = 25, High = int (length dbKeys)\<rparr>]"
  shows "chunkTasks h ops model dbKeys =
           [loadPage h ops model 0 (buildGetRequests h (take 25 dbKeys)),
            loadPage h ops model 1 (buildGetRequests h (drop 25 dbKeys))]"
  by (simp add: chunkTasks_def assms enumerate_eq_zip pageSlice_def upt_rec)


lemma GetByIDs_first_message:
  assumes "runs = chunkTasks h ops model dbKeys"
    and "task < length runs" and "runs ! task = Some run"
  shows "GetByIDs h ops model dbKeys (task # rest)
         = (if Err (message run) \<noteq> None then Some ([], Err (message run))
            else Some (Records (message run), None))"
  using arrivals_Cons [OF assms(2,3), of rest]
  by (simp add: GetByIDs_def assms(1) [symmetric])

text \<open>
  Claim C1, on the code.  With 29 keys that all compile and a transport that answers the
  first call of each chunk task with all the requested items, two chunk tasks are
  dispatched, each sends exactly one batch-get request (for 25 and for 4 keys) and has a
  message with 25 and 4 records and no error.  The drain loop takes one message and
  returns: the call returns the 25 records of the first chunk or the 4 records of the
  second one, whichever task hands over its message first, and never all 29.
\<close>

theorem C1_GetByIDs_29_keys_returns_one_chunk:
  assumes "length dbKeys = 29"
    and "PartitionKey (TableInfo (config h)) \<noteq> []"
    and "\<forall>key \<in> set dbKeys. GetPartitionKey key \<noteq> []"
    and "answersFirstTry h ops model 0 (buildGetRequests h (take 25 dbKeys))"
    and "answersFirstTry h ops model 1 (buildGetRequests h (drop 25 dbKeys))"
    and "validSchedule 2 sched"
  shows "\<exists>recs0 recs1.
           chunkTasks h ops model dbKeys =
             [Some \<lparr>message = \<lparr>Records = recs0, Err = None\<rparr>,
                     calls = [buildGetRequests h (take 25 dbKeys)]\<rparr>,
              Some \<lparr>message = \<lparr>Records = recs1, Err = None\<rparr>,
                     calls = [buildGetRequests h (drop 25 dbKeys)]\<rparr>]
         \<and> length (requestedKeys (TableName (TableInfo (config h)))
                      (buildGetRequests h (take 25 dbKeys))) = 25
         \<and> length (requestedKeys (TableName (TableInfo (config h)))
                      (buildGetRequests h (drop 25 dbKeys))) = 4
         \<and> length recs0 = 25 \<and> length recs1 = 4
         \<and> GetByIDs h ops model dbKeys sched = Some (if hd sched = 0 then recs0 else recs1, None)"
proof -
  have p: "Partition (int (length dbKeys)) 25
           = [\<lparr>Low = 0, High = 25\<rparr>, \<lparr>Low = 25, High = int (length dbKeys)\<rparr>]"
    by (simp add: assms(1) Partition_29_25)
  note tasks = chunkTasks_two_pages [OF p, of h ops model]
  from assms(3) have k0: "\<forall>key \<in> set (take 25 dbKeys). GetPartitionKey key \<noteq> []"
    by (meson in_set_takeD)
  from assms(3) have k1: "\<forall>key \<in> set (drop 25 dbKeys). GetPartitionKey key \<noteq> []"
    by (meson in_set_dropD)
  from loadPage_first_try [OF assms(2) k0 assms(4)] assms(1) obtain recs0 where
    r0: "loadPage h ops model 0 (buildGetRequests h (take 25 dbKeys))
         = Some \<lparr>message = \<lparr>Records = recs0, Err = None\<rparr>,
                  calls = [buildGetRequests h (take 25 dbKeys)]\<rparr>"
    and l0: "length recs0 = 25"
    and q0: "length (requestedKeys (TableName (TableInfo (config h)))
                      (buildGetRequests h (take 25 dbKeys))) = 25"
    by auto
  from loadPage_first_try [OF assms(2) k1 assms(5)] assms(1) obtain recs1 where
    r1: "loadPage h ops model 1 (buildGetRequests h (drop 25 dbKeys))
         = Some \<lparr>message = \<lparr>Records = recs1, Err = None\<rparr>,
                  calls = [buildGetRequests h (drop 25 dbKeys)]\<rparr>"
    and l1: "length recs1 = 4"
    and q1: "length (requestedKeys (TableName (TableInfo (config h)))
                      (buildGetRequests h (drop 25 dbKeys))) = 4"
    by auto
  let ?runs = "chunkTasks h ops model dbKeys"
  have runs: "?runs = [Some \<lparr>message = \<lparr>Records = recs0, Err = None\<rparr>,
                     calls = [buildGetRequests h (take 25 dbKeys)]\<rparr>,
              Some \<lparr>message = \<lparr>Records = recs1, Err = None\<rparr>,
                     calls = [buildGetRequests h (drop 25 dbKeys)]\<rparr>]"
    unfolding tasks r0 r1 by (rule refl)
  have n0: "0 < length ?runs" and n1: "1 < length ?runs"
    by (simp_all add: runs)
  have e0: "?runs ! 0 = Some \<lparr>message = \<lparr>Records = recs0, Err = None\<rparr>,
                     calls = [buildGetRequests h (take 25 dbKeys)]\<rparr>"
    by (simp add: runs)
  have e1: "?runs ! 1 = Some \<lparr>message = \<lparr>Records = recs1, Err = None\<rparr>,
                     calls = [buildGetRequests h (drop 25 dbKeys)]\<rparr>"
    by (simp add: runs)
  from validSchedule_2 [OF assms(6)]
  have "GetByIDs h ops model dbKeys sched = Some (if hd sched = 0 then recs0 else recs1, None)"
  proof
    assume s: "sched = [0, 1]"
    show ?thesis
      unfolding s using GetByIDs_first_message [OF refl n0 e0, of "[1]"] by simp
  next
    assume s: "sched = [1, 0]"
    show ?thesis
      unfolding s using GetByIDs_first_message [OF refl n1 e1, of "[0]"] by simp
  qed
  with runs l0 l1 q0 q1 show ?thesis by blast
qed

text \<open>
  Claim C2, on the code.  With 26 keys that all compile, a transport that answers the
  first chunk with all its items and fails the call of the second chunk with the error
  \<open>e\<close>: when the first chunk's message is received first, \<^verbatim>\<open>GetByIDs\<close> returns the 25
  records of the first chunk and a \<^verbatim>\<open>nil\<close> error, and the error \<open>e\<close> is lost; the error is
  returned only when the failing chunk's message is received first.
\<close>

theorem C2_GetByIDs_error_lost_when_received_second:
  assumes "length dbKeys = 26"
    and "PartitionKey (TableInfo (config h)) \<noteq> []"
    and "\<forall>key \<in> set dbKeys. GetPartitionKey key \<noteq> []"
    and "answersFirstTry h ops model 0 (buildGetRequests h (take 25 dbKeys))"
    and "BatchGetItemWithContext h 1 0 (buildGetRequests h (drop 25 dbKeys)) = Inl e"
  shows "\<exists>recs0.
           chunkTasks h ops model dbKeys =
             [Some \<lparr>message = \<lparr>Records = recs0, Err = None\<rparr>,
                     calls = [buildGetRequests h (take 25 dbKeys)]\<rparr>,
              Some \<lparr>message = \<lparr>Records = [], Err = Some e\<rparr>,
                     calls = [buildGetRequests h (drop 25 dbKeys)]\<rparr>]
         \<and> length recs0 = 25
         \<and> validSchedule 2 [0, 1]
         \<and> GetByIDs h ops model dbKeys [0, 1] = Some (recs0, None)
         \<and> GetByIDs h ops model dbKeys [1, 0] = Some ([], Some e)"
proof -
  have p: "Partition (int (length dbKeys)) 25
           = [\<lparr>Low = 0, High = 25\<rparr>, \<lparr>Low = 25, High = int (length dbKeys)\<rparr>]"
    by (simp add: assms(1) Partition_26_25)
  note tasks = chunkTasks_two_pages [OF p, of h ops model]
  from assms(3) have k0: "\<forall>key \<in> set (take 25 dbKeys). GetPartitionKey key \<noteq> []"
    by (meson in_set_takeD)
  from loadPage_first_try [OF assms(2) k0 assms(4)] assms(1) obtain recs0 where
    r0: "loadPage h ops model 0 (buildGetRequests h (take 25 dbKeys))
         = Some \<lparr>message = \<lparr>Records = recs0, Err = None\<rparr>,
                  calls = [buildGetRequests h (take 25 dbKeys)]\<rparr>"
    and l0: "length recs0 = 25"
    by auto
  have r1: "loadPage h ops model 1 (buildGetRequests h (drop 25 dbKeys))
         = Some \<lparr>message = \<lparr>Records = [], Err = Some e\<rparr>,
                  calls = [buildGetRequests h (drop 25 dbKeys)]\<rparr>"
    using load_error [OF assms(5), where ops = ops and model = model]
    by (simp add: loadPage_def)
  let ?runs = "chunkTasks h ops model dbKeys"
  have runs: "?runs = [Some \<lparr>message = \<lparr>Records = recs0, Err = None\<rparr>,
                     calls = [buildGetRequests h (take 25 dbKeys)]\<rparr>,
              Some \<lparr>message = \<lparr>Records = [], Err = Some e\<rparr>,
                     calls = [buildGetRequests h (drop 25 dbKeys)]\<rparr>]"
    unfolding tasks r0 r1 by (rule refl)
  have v: "validSchedule 2 [0, 1]"
    by (auto simp: validSchedule_def)
  have n0: "0 < length ?runs" and n1: "1 < length ?runs"
    by (simp_all add: runs)
  have e0: "?runs ! 0 = Some \<lparr>message = \<lparr>Records = recs0, Err = None\<rparr>,
                     calls = [buildGetRequests h (take 25 dbKeys)]\<rparr>"
    by (simp add: runs)
  have e1: "?runs ! 1 = Some \<lparr>message = \<lparr>Records = [], Err = Some e\<rparr>,
                     calls = [buildGetRequests h (drop 25 dbKeys)]\<rparr>"
    by (simp add: runs)
  have g0: "GetByIDs h ops model dbKeys [0, 1] = Some (recs0, None)"
    using GetByIDs_first_message [OF refl n0 e0, of "[1]"] by simp
  have g1: "GetByIDs h ops model dbKeys [1, 0] = Some ([], Some e)"
    using GetByIDs_first_message [OF refl n1 e1, of "[0]"] by simp
  from runs l0 v g0 g1 show ?thesis by blast
qed

subsection \<open>The statements at concrete inputs\<close>

lemma Partition_1_25: "Partition 1 25 = [\<lparr>Low = 0, High = 1\<rparr>]"
  by (simp add: Partition_pos)

lemma badKey_skipped: "buildKeyAttributes cfg [keyWithoutPartitionKey] [] = []"
  by (simp add: keyWithoutPartitionKey_def cfg_def DBPSKeyNames.truncate_def Let_def
      GetPartitionKey_def GetSortKey_def WithPartitionKey_def WithSortingKey_def
      NewExpressionWrapper_def CreateQueryKeys_def)

lemma mocked_config: "config mockedGetHandler = cfg"
  by (simp add: mockedGetHandler_def testHandler_def)

lemma mocked_empty_request:
  "BatchGetItemWithContext mockedGetHandler task k
     \<lparr>GetRequestItems = [''table'' \<mapsto> \<lparr>Keys = []\<rparr>]\<rparr>
   = Inr \<lparr>Responses = Map.empty, UnprocessedKeys = Map.empty\<rparr>"
  by (simp add: mockedGetHandler_def testHandler_def MockedBatchGet_def)

text \<open>
  Claim C3 as stated fails: for the one key of the repository's test "with wrong input
  (missing partition key)", which fails key compilation, the chunk task sends a batch-get
  request (with an empty key list) to the transport.
\<close>

theorem C3_GetByIDs_call_is_made_counterexample:
  "buildKeyAttributes (config mockedGetHandler) [keyWithoutPartitionKey] [] = []
   \<and> chunkTasks mockedGetHandler keyModel (testKey 0) [keyWithoutPartitionKey]
       = [Some \<lparr>message = \<lparr>Records = [], Err = None\<rparr>,
                 calls = [\<lparr>GetRequestItems = [''table'' \<mapsto> \<lparr>Keys = []\<rparr>]\<rparr>]\<rparr>]"
proof -
  have t: "TableName (TableInfo cfg) = ''table''" by (simp add: cfg_def)
  have "load mockedGetHandler keyModel (testKey 0) 0 0
          \<lparr>GetRequestItems = [''table'' \<mapsto> \<lparr>Keys = []\<rparr>]\<rparr> [] []
        = Some ([], None, [\<lparr>GetRequestItems = [''table'' \<mapsto> \<lparr>Keys = []\<rparr>]\<rparr>])"
    by (rule load_no_items [OF mocked_empty_request]) (simp_all add: mocked_config t)
  then show ?thesis
    by (simp add: chunkTasks_def Partition_1_25 pageSlice_def buildGetRequests_def loadPage_def
        mocked_config badKey_skipped t del: buildKeyAttributes.simps)
qed

theorem C3_GetByIDs_all_keys_skipped_witness:
  "[keyWithoutPartitionKey] \<noteq> []
   \<and> validSchedule (length (chunkTasks mockedGetHandler keyModel (testKey 0) [keyWithoutPartitionKey])) [0]
   \<and> chunkTasks mockedGetHandler keyModel (testKey 0) [keyWithoutPartitionKey] \<noteq> []
   \<and> GetByIDs mockedGetHandler keyModel (testKey 0) [keyWithoutPartitionKey] [0] = Some ([], None)"
proof -
  have t: "TableName (TableInfo (config mockedGetHandler)) = ''table''"
    by (simp add: mocked_config cfg_def)
  have a: "[keyWithoutPartitionKey] \<noteq> []" by simp
  have b: "\<forall>key \<in> set [keyWithoutPartitionKey].
             buildKeyAttributes (config mockedGetHandler) [key] [] = []"
    by (simp add: mocked_config badKey_skipped del: buildKeyAttributes.simps)
  have c: "\<forall>task. \<exists>res.
           BatchGetItemWithContext mockedGetHandler task 0
             \<lparr>GetRequestItems = [TableName (TableInfo (config mockedGetHandler)) \<mapsto> \<lparr>Keys = []\<rparr>]\<rparr> = Inr res
           \<and> UnprocessedKeys res = Map.empty
           \<and> (case Responses res (TableName (TableInfo (config mockedGetHandler))) of
                None \<Rightarrow> True | Some its \<Rightarrow> its = [])"
    by (simp add: t mocked_empty_request)
  have d: "validSchedule (length (chunkTasks mockedGetHandler keyModel (testKey 0) [keyWithoutPartitionKey])) [0]"
    by (simp add: chunkTasks_def Partition_1_25 validSchedule_def)
  from a d C3_GetByIDs_all_keys_skipped [OF a b c d] show ?thesis
    by blast
qed

lemma answersFirstTry_echo:
  assumes "BatchGetItemWithContext h = echoBatchGet (TableName (TableInfo (config h)))"
  shows "answersFirstTry h keyModel model task req"
  unfolding answersFirstTry_def
  by (simp add: assms echoBatchGet_def requestedKeys_def keyModel_def)

lemma testKeys_valid: "\<forall>key \<in> set (testKeys n). GetPartitionKey key \<noteq> []"
  by (simp add: testKeys_def testKey_def GetPartitionKey_def)

theorem C1_GetByIDs_29_keys_returns_one_chunk_witness:
  "length (testKeys 29) = 29
   \<and> PartitionKey (TableInfo (config echoHandler)) \<noteq> []
   \<and> answersFirstTry echoHandler keyModel (testKey 0) 0 (buildGetRequests echoHandler (take 25 (testKeys 29)))
   \<and> answersFirstTry echoHandler keyModel (testKey 0) 1 (buildGetRequests echoHandler (drop 25 (testKeys 29)))
   \<and> validSchedule 2 [1, 0]
   \<and> (\<exists>recs. length recs = 4
        \<and> GetByIDs echoHandler keyModel (testKey 0) (testKeys 29) [1, 0] = Some (recs, None))"
proof -
  have e: "BatchGetItemWithContext echoHandler = echoBatchGet (TableName (TableInfo (config echoHandler)))"
    by (simp add: echoHandler_def testHandler_def cfg_def)
  have a: "length (testKeys 29) = 29" by (simp add: testKeys_def)
  have b: "PartitionKey (TableInfo (config echoHandler)) \<noteq> []"
    by (simp add: echoHandler_def testHandler_def cfg_def)
  note c = testKeys_valid [of 29]
  note d0 = answersFirstTry_echo [OF e, of "testKey 0" 0 "buildGetRequests echoHandler (take 25 (testKeys 29))"]
  note d1 = answersFirstTry_echo [OF e, of "testKey 0" 1 "buildGetRequests echoHandler (drop 25 (testKeys 29))"]
  have v: "validSchedule 2 [1, 0]" by (auto simp: validSchedule_def)
  from C1_GetByIDs_29_keys_returns_one_chunk [OF a b c d0 d1 v]
  have "\<exists>recs. length recs = 4
        \<and> GetByIDs echoHandler keyModel (testKey 0) (testKeys 29) [1, 0] = Some (recs, None)"
    by auto
  with a b d0 d1 v show ?thesis by blast
qed

theorem C2_GetByIDs_error_lost_when_received_second_witness:
  "length (testKeys 26) = 26
   \<and> PartitionKey (TableInfo (config failSecondHandler)) \<noteq> []
   \<and> answersFirstTry failSecondHandler keyModel (testKey 0) 0
       (buildGetRequests failSecondHandler (take 25 (testKeys 26)))
   \<and> BatchGetItemWithContext failSecondHandler 1 0
       (buildGetRequests failSecondHandler (drop 25 (testKeys 26))) = Inl (errors_New ''fake error'')
   \<and> (\<exists>recs0. length recs0 = 25
        \<and> GetByIDs failSecondHandler keyModel (testKey 0) (testKeys 26) [0, 1] = Some (recs0, None))
   \<and> GetByIDs failSecondHandler keyModel (testKey 0) (testKeys 26) [1, 0]
       = Some ([], Some (errors_New ''fake error''))"
proof -
  have a: "length (testKeys 26) = 26" by (simp add: testKeys_def)
  have b: "PartitionKey (TableInfo (config failSecondHandler)) \<noteq> []"
    by (simp add: failSecondHandler_def testHandler_def cfg_def)
  note c = testKeys_valid [of 26]
  have d: "answersFirstTry failSecondHandler keyModel (testKey 0) 0
       (buildGetRequests failSecondHandler (take 25 (testKeys 26)))"
    unfolding answersFirstTry_def
    by (simp add: failSecondHandler_def testHandler_def cfg_def failSecondBatchGet_def
        echoBatchGet_def requestedKeys_def keyModel_def)
  have e: "BatchGetItemWithContext failSecondHandler 1 0
       (buildGetRequests failSecondHandler (drop 25 (testKeys 26))) = Inl (errors_New ''fake error'')"
    by (simp add: failSecondHandler_def testHandler_def failSecondBatchGet_def)
  from C2_GetByIDs_error_lost_when_received_second [OF a b c d e]
  have "(\<exists>recs0. length recs0 = 25
        \<and> GetByIDs failSecondHandler keyModel (testKey 0) (testKeys 26) [0, 1] = Some (recs0, None))
   \<and> GetByIDs failSecondHandler keyModel (testKey 0) (testKeys 26) [1, 0]
       = Some ([], Some (errors_New ''fake error''))"
    by auto
  with a b d e show ?thesis by blast
qed

section \<open>Update fields and the scan request\<close>

lemma WithUpdateField_appends:
  assumes "WithUpdateField name v (st, expr) = (st', expr')"
  shows "setOperations st' (updateExpression expr')
           = setOperations st (updateExpression expr) @ [setField (name, v)]
         \<and> updateOperations st' (updateExpression expr') \<noteq> None
         \<and> expr' = expr\<lparr>updateExpression := updateExpression expr'\<rparr>"
proof (cases "operationList (updateExpression expr)")
  case None
  with assms show ?thesis
    by (auto simp: WithUpdateField_def DeepEqual_def updateOperations_def zeroUpdateBuilder_def
        expression_Set_def UpdateBuilder_Set_def setOperations_def setField_def Let_def
        split: prod.splits)
next
  case (Some r)
  with assms show ?thesis
    by (auto simp: WithUpdateField_def DeepEqual_def updateOperations_def zeroUpdateBuilder_def
        UpdateBuilder_Set_def setOperations_def setField_def Let_def
        split: prod.splits option.splits)
qed

lemma WithUpdateFields_appends:
  assumes "WithUpdateFields fvs (st, expr) = (st', expr')"
  shows "setOperations st' (updateExpression expr')
           = setOperations st (updateExpression expr) @ map setField fvs
         \<and> (fvs \<noteq> [] \<longrightarrow> updateOperations st' (updateExpression expr') \<noteq> None)
         \<and> expr' = expr\<lparr>updateExpression := updateExpression expr'\<rparr>"
  using assms
proof (induction fvs arbitrary: st expr)
  case Nil
  then show ?case by simp
next
  case (Cons nv fvs)
  obtain name v where nv: "nv = (name, v)" by (cases nv)
  obtain st1 expr1 where one: "WithUpdateField name v (st, expr) = (st1, expr1)"
    by (cases "WithUpdateField name v (st, expr)")
  with Cons.prems nv have rest: "WithUpdateFields fvs (st1, expr1) = (st', expr')" by simp
  note a = WithUpdateField_appends [OF one]
  note b = Cons.IH [OF rest]
  have ne: "updateOperations st' (updateExpression expr') \<noteq> None"
  proof (cases fvs)
    case Nil
    with rest a show ?thesis by simp
  next
    case (Cons x xs)
    with b show ?thesis by simp
  qed
  from a b have "expr' = expr\<lparr>updateExpression := updateExpression expr'\<rparr>"
    by (metis (no_types, lifting) AwsExpressionWrapper.surjective AwsExpressionWrapper.update_convs(1))
  with a b ne nv show ?case by simp
qed


text \<open>
  Claim C4.  After a sequence of two or more \<^verbatim>\<open>WithUpdateField\<close> calls on one wrapper,
  with distinct field names, the update builder of the wrapper holds the set operations
  it held before followed by one set operation per call, with the name and the value of
  the call, in the order of the calls: no call replaces or drops an earlier field.  When
  the keys of the wrapper compile, \<^verbatim>\<open>BuildUpdateInput\<close> returns a request whose update
  clause (and attribute names and values) is what the compile function makes of exactly
  these operations.
\<close>

theorem C4_WithUpdateField_accumulates:
  assumes "2 \<le> length fvs"
    and "distinct (map fst fvs)"
    and "WithUpdateFields fvs (st, expr) = (st', expr')"
  shows "setOperations st' (updateExpression expr')
           = setOperations st (updateExpression expr) @ map setField fvs
       \<and> (\<forall>queryKeys. CreateQueryKeys expr' = Inr queryKeys \<longrightarrow>
            (\<exists>m. updateOperations st' (updateExpression expr') = Some m
               \<and> m setOperation = Some (setOperations st (updateExpression expr) @ map setField fvs)
               \<and> BuildUpdateInput Build (st', expr')
                   = (Some \<lparr>ExpressionAttributeNames =
                               Names (fst (Build \<lparr>filterSlot = None, keyConditionSlot = None,
                                                   updateSlot = Some m\<rparr>)),
                            ExpressionAttributeValues =
                               Values (fst (Build \<lparr>filterSlot = None, keyConditionSlot = None,
                                                    updateSlot = Some m\<rparr>)),
                            InputTableName = Some (dynamoDBTable expr'),
                            UpdateExpression =
                               Update (fst (Build \<lparr>filterSlot = None, keyConditionSlot = None,
                                                    updateSlot = Some m\<rparr>)),
                            InputKey = queryKeys\<rparr>,
                      snd (Build \<lparr>filterSlot = None, keyConditionSlot = None,
                                  updateSlot = Some m\<rparr>))))"
proof -
  from assms(1) have ne: "fvs \<noteq> []" by auto
  note acc = WithUpdateFields_appends [OF assms(3)]
  from acc ne obtain m where m: "updateOperations st' (updateExpression expr') = Some m"
    by auto
  from acc ne have "setOperations st' (updateExpression expr') \<noteq> []" by simp
  with m acc have ms: "m setOperation = Some (setOperations st (updateExpression expr) @ map setField fvs)"
    by (auto simp: setOperations_def split: option.splits)
  have "BuildUpdateInput Build (st', expr')
          = (Some \<lparr>ExpressionAttributeNames =
                               Names (fst (Build \<lparr>filterSlot = None, keyConditionSlot = None,
                                                   updateSlot = Some m\<rparr>)),
                            ExpressionAttributeValues =
                               Values (fst (Build \<lparr>filterSlot = None, keyConditionSlot = None,
                                                    updateSlot = Some m\<rparr>)),
                            InputTableName = Some (dynamoDBTable expr'),
                            UpdateExpression =
                               Update (fst (Build \<lparr>filterSlot = None, keyConditionSlot = None,
                                                    updateSlot = Some m\<rparr>)),
                            InputKey = queryKeys\<rparr>,
                      snd (Build \<lparr>filterSlot = None, keyConditionSlot = None,
                                  updateSlot = Some m\<rparr>))"
    if "CreateQueryKeys expr' = Inr queryKeys" for queryKeys
    using that m
    by (simp add: BuildUpdateInput_def DeepEqual_def zeroUpdateBuilder_def WithUpdate_def
        NewBuilder_def Let_def case_prod_unfold updateOperations_def [of st' "\<lparr>operationList = None\<rparr>"])
  with acc m ms show ?thesis by blast
qed

lemma BuildScanInput_always_key_condition:
  assumes "dynamoDBTable expr \<noteq> []"
  shows "BuildScanInput Build expr
         = (Some \<lparr>ExpressionAttributeNames =
                     Names (fst (Build \<lparr>filterSlot = (if conditionExpression expr = zeroConditionBuilder
                                                        then None else Some (conditionExpression expr)),
                                         keyConditionSlot = Some (keyCondition expr),
                                         updateSlot = None\<rparr>)),
                  ExpressionAttributeValues =
                     Values (fst (Build \<lparr>filterSlot = (if conditionExpression expr = zeroConditionBuilder
                                                        then None else Some (conditionExpression expr)),
                                         keyConditionSlot = Some (keyCondition expr),
                                         updateSlot = None\<rparr>)),
                  InputTableName = Some (dynamoDBTable expr),
                  FilterExpression =
                     KeyCondition (fst (Build \<lparr>filterSlot = (if conditionExpression expr = zeroConditionBuilder
                                                        then None else Some (conditionExpression expr)),
                                         keyConditionSlot = Some (keyCondition expr),
                                         updateSlot = None\<rparr>)),
                  Limit = (if limit expr \<noteq> None \<and> 1 \<le> the (limit expr) then limit expr else None),
                  ExclusiveStartKey = exclusiveStartKey expr\<rparr>, None)"
  using assms
  by (simp add: BuildScanInput_def DeepEqual_def NewBuilder_def WithFilter_def
      WithKeyCondition_Builder_def Let_def case_prod_unfold)

text \<open>
  Claim C5.  For a wrapper with a non-empty table name on which a filter condition and a
  key condition have been set, \<^verbatim>\<open>BuildScanInput\<close> returns a scan request whose filter
  position holds the key condition of the compile of both conditions, with the attribute
  names and values of that compile: the request built from the filter condition alone is
  overwritten and nothing of it is left.
\<close>

theorem C5_BuildScanInput_key_condition_overwrites:
  assumes "dynamoDBTable expr \<noteq> []"
    and "conditionExpression expr \<noteq> zeroConditionBuilder"
    and "keyCondition expr \<noteq> zeroKeyConditionBuilder"
  shows "BuildScanInput Build expr
         = (Some \<lparr>ExpressionAttributeNames =
                     Names (fst (Build \<lparr>filterSlot = Some (conditionExpression expr),
                                         keyConditionSlot = Some (keyCondition expr),
                                         updateSlot = None\<rparr>)),
                  ExpressionAttributeValues =
                     Values (fst (Build \<lparr>filterSlot = Some (conditionExpression expr),
                                          keyConditionSlot = Some (keyCondition expr),
                                          updateSlot = None\<rparr>)),
                  InputTableName = Some (dynamoDBTable expr),
                  FilterExpression =
                     KeyCondition (fst (Build \<lparr>filterSlot = Some (conditionExpression expr),
                                                keyConditionSlot = Some (keyCondition expr),
                                                updateSlot = None\<rparr>)),
                  Limit = (if limit expr \<noteq> None \<and> 1 \<le> the (limit expr) then limit expr else None),
                  ExclusiveStartKey = exclusiveStartKey expr\<rparr>, None)"
  using BuildScanInput_always_key_condition [OF assms(1), of Build] assms(2)
  by simp

lemma createCondition_nonzero: "createCondition name v operator \<noteq> zeroConditionBuilder"
  by (simp add: createCondition_def zeroConditionBuilder_def compareCond_def betweenCondition_def
      split: goValue.splits Operator.splits)

lemma createKeyCondition_nonzero: "createKeyCondition name v operator \<noteq> zeroKeyConditionBuilder"
  by (simp add: createKeyCondition_def zeroKeyConditionBuilder_def compareKeyCond_def
      split: Operator.splits)


theorem C4_WithUpdateField_accumulates_witness:
  "2 \<le> length testFields \<and> distinct (map fst testFields)
   \<and> setOperations (fst (WithUpdateFields testFields (emptyStore, testWrapper)))
        (updateExpression (snd (WithUpdateFields testFields (emptyStore, testWrapper))))
      = map setField testFields
   \<and> map_option UpdateExpression
        (fst (BuildUpdateInput namesBuild (WithUpdateFields testFields (emptyStore, testWrapper))))
      = Some (Some ''SET UpdatedAt CreatedAt'')"
proof -
  obtain st' expr' where r: "WithUpdateFields testFields (emptyStore, testWrapper) = (st', expr')"
    by (cases "WithUpdateFields testFields (emptyStore, testWrapper)")
  have a: "2 \<le> length testFields" by (simp add: testFields_def)
  have b: "distinct (map fst testFields)" by (simp add: testFields_def)
  have z: "setOperations emptyStore (updateExpression testWrapper) = []"
    by (simp add: setOperations_def updateOperations_def emptyStore_def testWrapper_def
        WithSortingKey_def WithPartitionKey_def NewExpressionWrapper_def zeroUpdateBuilder_def)
  from WithUpdateFields_appends [OF r]
  have e: "expr' = testWrapper\<lparr>updateExpression := updateExpression expr'\<rparr>" by simp
  have k: "CreateQueryKeys expr'
           = Inr [''partitionID'' \<mapsto> Some (S ''1234''), ''UserID'' \<mapsto> Some (S ''abcd'')]"
    by (subst e) (simp add: CreateQueryKeys_def testWrapper_def WithSortingKey_def
        WithPartitionKey_def NewExpressionWrapper_def)
  from C4_WithUpdateField_accumulates [OF a b r, of namesBuild] k z
  have s: "setOperations st' (updateExpression expr') = map setField testFields"
    and "\<exists>m. m setOperation = Some (map setField testFields)
           \<and> map_option UpdateExpression (fst (BuildUpdateInput namesBuild (st', expr')))
              = Some (Update (fst (namesBuild \<lparr>filterSlot = None, keyConditionSlot = None,
                                               updateSlot = Some m\<rparr>)))"
    by auto
  then have "map_option UpdateExpression (fst (BuildUpdateInput namesBuild (st', expr')))
             = Some (Some ''SET UpdatedAt CreatedAt'')"
    by (auto simp: namesBuild_def testFields_def setField_def)
  with a b s show ?thesis by (simp add: r)
qed

theorem C5_BuildScanInput_key_condition_overwrites_witness:
  "dynamoDBTable scanWrapper \<noteq> []
   \<and> conditionExpression scanWrapper \<noteq> zeroConditionBuilder
   \<and> keyCondition scanWrapper \<noteq> zeroKeyConditionBuilder
   \<and> Filter (fst (namesBuild \<lparr>filterSlot = Some (conditionExpression scanWrapper),
                             keyConditionSlot = None, updateSlot = None\<rparr>)) = Some ''filter abc''
   \<and> map_option FilterExpression (fst (BuildScanInput namesBuild scanWrapper))
      = Some (Some ''key partitionID'')
   \<and> map_option Limit (fst (BuildScanInput namesBuild scanWrapper)) = Some (Some 5)"
proof -
  have a: "dynamoDBTable scanWrapper \<noteq> []"
    by (simp add: scanWrapper_def WithLimit_def WithCondition_def WithKeyCondition_def
        NewExpressionWrapper_def)
  have c: "conditionExpression scanWrapper = createCondition ''abc'' (GoInt 123) GE"
    by (simp add: scanWrapper_def WithLimit_def WithCondition_def WithKeyCondition_def)
  have k: "keyCondition scanWrapper = createKeyCondition ''partitionID'' (GoInt 123) EQUAL"
    by (simp add: scanWrapper_def WithLimit_def WithCondition_def WithKeyCondition_def)
  have l: "limit scanWrapper = Some 5"
    by (simp add: scanWrapper_def WithLimit_def WithCondition_def WithKeyCondition_def)
  have b: "conditionExpression scanWrapper \<noteq> zeroConditionBuilder"
    by (simp add: c createCondition_nonzero)
  have d: "keyCondition scanWrapper \<noteq> zeroKeyConditionBuilder"
    by (simp add: k createKeyCondition_nonzero)
  have f: "Filter (fst (namesBuild \<lparr>filterSlot = Some (conditionExpression scanWrapper),
                             keyConditionSlot = None, updateSlot = None\<rparr>)) = Some ''filter abc''"
    by (simp add: c namesBuild_def createCondition_def compareCond_def firstOperand_def)
  have g: "KeyCondition (fst (namesBuild \<lparr>filterSlot = Some (conditionExpression scanWrapper),
                             keyConditionSlot = Some (keyCondition scanWrapper), updateSlot = None\<rparr>))
           = Some ''key partitionID''"
    by (simp add: k namesBuild_def createKeyCondition_def compareKeyCond_def firstOperand_def)
  from C5_BuildScanInput_key_condition_overwrites [OF a b d, of namesBuild] g l a b d f show ?thesis
    by simp
qed

section \<open>Bulk add\<close>

lemma putRequests_length:
  "putRequests h ops uuid cp cs recs k reqs = Inr requests \<Longrightarrow>
   length requests = length reqs + length recs"
proof (induction recs arbitrary: k reqs)
  case Nil
  then show ?case by simp
next
  case (Cons r recs)
  then show ?case
    by (auto split: sum.splits prod.splits)
qed

lemma decodeUnprocessedItems_decodes:
  "list_all2 (\<lambda>item r. \<exists>pr. PutRequest item = Some pr \<and> Unmarshal ops baseModel (Item pr) = Inr r)
     its decoded \<Longrightarrow>
   decodeUnprocessedItems ops baseModel its unprocessed = Returns (Inr (unprocessed @ decoded))"
proof (induction its arbitrary: decoded unprocessed)
  case Nil
  then show ?case by simp
next
  case (Cons item its)
  then obtain r rest where d: "decoded = r # rest"
    and "\<exists>pr. PutRequest item = Some pr \<and> Unmarshal ops baseModel (Item pr) = Inr r"
    and rest: "list_all2 (\<lambda>item r. \<exists>pr. PutRequest item = Some pr \<and> Unmarshal ops baseModel (Item pr) = Inr r)
     its rest"
    by (auto simp: list_all2_Cons1)
  then show ?case
    using Cons.IH [OF rest, of "unprocessed @ [r]"] by auto
qed

text \<open>
  Claim C7, as amended.  For every call to \<^verbatim>\<open>BulkAddRecords\<close> with 29 records: either no
  batch-write request is sent, or exactly one is sent and it carries the 25 put requests
  built from the first 25 records (none for the remaining 4).  When the put requests of
  the first 25 records can be built, the transport returns no error and every unprocessed
  item the provider reports for the table is a put request that decodes, the call returns
  the remaining 4 records followed by the decoded unprocessed items, with a \<^verbatim>\<open>nil\<close>
  error.  When a put request cannot be built, the call returns all 29 records with the
  error and sends nothing.
\<close>

theorem C7_BulkAddRecords_29_records:
  assumes "length records = 29"
  shows "(snd (BulkAddRecords h ops uuid baseModel createSortKey records) = []
          \<or> (\<exists>requests.
                putRequests h ops uuid True createSortKey (take 25 records) 0 [] = Inr requests
              \<and> length requests = 25
              \<and> snd (BulkAddRecords h ops uuid baseModel createSortKey records)
                  = [\<lparr>WriteRequestItems = [TableName (TableInfo (config h)) \<mapsto> requests]\<rparr>]))
       \<and> (\<forall>requests res decoded.
             putRequests h ops uuid True createSortKey (take 25 records) 0 [] = Inr requests
           \<and> BatchWriteItemWithContext h
                \<lparr>WriteRequestItems = [TableName (TableInfo (config h)) \<mapsto> requests]\<rparr> = Inr res
           \<and> list_all2 (\<lambda>item r. \<exists>pr. PutRequest item = Some pr
                                     \<and> Unmarshal ops baseModel (Item pr) = Inr r)
                (case UnprocessedItems res (TableName (TableInfo (config h))) of
                   None \<Rightarrow> [] | Some its \<Rightarrow> its) decoded
           \<longrightarrow> BulkAddRecords h ops uuid baseModel createSortKey records
                 = (Returns (drop 25 records @ decoded, None),
                    [\<lparr>WriteRequestItems = [TableName (TableInfo (config h)) \<mapsto> requests]\<rparr>]))
       \<and> (\<forall>err. putRequests h ops uuid True createSortKey (take 25 records) 0 [] = Inl err
           \<longrightarrow> BulkAddRecords h ops uuid baseModel createSortKey records
                 = (Returns (records, Some err), []))"
proof -
  from assms have m: "min 25 (length records) = 25" by simp
  have 1: "snd (BulkAddRecords h ops uuid baseModel createSortKey records) = []
          \<or> (\<exists>requests.
                putRequests h ops uuid True createSortKey (take 25 records) 0 [] = Inr requests
              \<and> length requests = 25
              \<and> snd (BulkAddRecords h ops uuid baseModel createSortKey records)
                  = [\<lparr>WriteRequestItems = [TableName (TableInfo (config h)) \<mapsto> requests]\<rparr>])"
  proof (cases "putRequests h ops uuid True createSortKey (take 25 records) 0 []")
    case (Inl err)
    then show ?thesis
      by (simp add: BulkAddRecords_def batchWrite_def m)
  next
    case (Inr requests)
    from putRequests_length [OF Inr] assms have "length requests = 25" by simp
    with Inr show ?thesis
      by (auto simp: BulkAddRecords_def batchWrite_def m Let_def split: sum.splits outcome.splits)
  qed
  have 2: "BulkAddRecords h ops uuid baseModel createSortKey records
                 = (Returns (drop 25 records @ decoded, None),
                    [\<lparr>WriteRequestItems = [TableName (TableInfo (config h)) \<mapsto> requests]\<rparr>])"
    if "putRequests h ops uuid True createSortKey (take 25 records) 0 [] = Inr requests"
      and "BatchWriteItemWithContext h
                \<lparr>WriteRequestItems = [TableName (TableInfo (config h)) \<mapsto> requests]\<rparr> = Inr res"
      and "list_all2 (\<lambda>item r. \<exists>pr. PutRequest item = Some pr
                                     \<and> Unmarshal ops baseModel (Item pr) = Inr r)
                (case UnprocessedItems res (TableName (TableInfo (config h))) of
                   None \<Rightarrow> [] | Some its \<Rightarrow> its) decoded"
    for requests res decoded
    using that(1,2) decodeUnprocessedItems_decodes [OF that(3), of "drop 25 records"]
    by (simp add: BulkAddRecords_def batchWrite_def m Let_def)
  have 3: "BulkAddRecords h ops uuid baseModel createSortKey records = (Returns (records, Some err), [])"
    if "putRequests h ops uuid True createSortKey (take 25 records) 0 [] = Inl err" for err
    using that by (simp add: BulkAddRecords_def batchWrite_def m)
  from 1 2 3 show ?thesis by blast
qed


lemma createPutItem_succeeds:
  assumes "Marshal ops r = Inr m"
  shows "\<exists>res. createPutItem h ops uuid r True True k = Inr res"
  using assms by (simp add: createPutItem_def Let_def case_prod_unfold)

lemma putRequests_succeeds:
  assumes "\<forall>r \<in> set recs. marshals ops r"
  shows "\<exists>requests. putRequests h ops uuid True True recs k reqs = Inr requests"
  using assms
proof (induction recs arbitrary: k reqs)
  case Nil
  then show ?case by simp
next
  case (Cons r recs)
  from Cons.prems obtain m where "Marshal ops r = Inr m"
    by (auto simp: marshals_def split: sum.splits)
  from createPutItem_succeeds [OF this, of h uuid k] obtain item ks k' where
    "createPutItem h ops uuid r True True k = Inr (item, ks, k')"
    by (metis prod_cases3)
  moreover from Cons.prems have "\<forall>r \<in> set recs. marshals ops r" by simp
  ultimately show ?case
    using Cons.IH [of k' "reqs @ [\<lparr>DeleteRequest = None, PutRequest = Some \<lparr>Item = item\<rparr>\<rparr>]"]
    by simp
qed

lemma testKeys_marshal: "\<forall>r \<in> set (testKeys n). marshals keyModel r"
  by (simp add: marshals_def keyModel_def)

lemma testKeys_Cons: "0 < n \<Longrightarrow> testKeys n = testKey 0 # map testKey [1..<n]"
  by (simp add: testKeys_def upt_conv_Cons)

text \<open>
  Claim C7 as stated fails: 29 records that all marshal, a table that declares a sort key,
  records without sort key value and \<^verbatim>\<open>createSortKey = false\<close>.  No batch-write request is
  sent, and the call returns all 29 records with the error of the first record.
\<close>

theorem C7_BulkAddRecords_missing_sort_key_counterexample:
  "length (testKeys 29) = 29
   \<and> list_all (marshals keyModel) (testKeys 29)
   \<and> BulkAddRecords echoHandler keyModel testUuid (testKey 0) False (testKeys 29)
      = (Returns (testKeys 29, Some (errors_New ''missing required sorting key'')), [])"
proof -
  have c: "config echoHandler = cfg"
    by (simp add: echoHandler_def testHandler_def)
  have "createPutItem echoHandler keyModel testUuid (testKey 0) True False 0
        = Inl (errors_New ''missing required sorting key'')"
    by (simp add: createPutItem_def c cfg_def keyModel_def testKey_def GetPartitionKey_def
        GetSortKey_def Let_def)
  then have "putRequests echoHandler keyModel testUuid True False (take 25 (testKeys 29)) 0 []
        = Inl (errors_New ''missing required sorting key'')"
    by (simp add: testKeys_Cons)
  then have "BulkAddRecords echoHandler keyModel testUuid (testKey 0) False (testKeys 29)
      = (Returns (testKeys 29, Some (errors_New ''missing required sorting key'')), [])"
    by (simp add: BulkAddRecords_def batchWrite_def testKeys_def)
  moreover have "length (testKeys 29) = 29" by (simp add: testKeys_def)
  moreover have "list_all (marshals keyModel) (testKeys 29)"
    using testKeys_marshal [of 29] by (simp add: list_all_iff)
  ultimately show ?thesis by blast
qed

theorem C7_BulkAddRecords_29_records_witness:
  "length (testKeys 29) = 29
   \<and> (\<exists>requests. length requests = 25
        \<and> BulkAddRecords writeHandler keyModel testUuid (testKey 0) True (testKeys 29)
           = (Returns (drop 25 (testKeys 29) @ [\<lparr>partitionKey = ''test'', sortKey = None\<rparr>], None),
              [\<lparr>WriteRequestItems = [''table'' \<mapsto> requests]\<rparr>]))"
proof -
  have l: "length (testKeys 29) = 29" by (simp add: testKeys_def)
  have t: "TableName (TableInfo (config writeHandler)) = ''table''"
    by (simp add: writeHandler_def testHandler_def cfg_def)
  from testKeys_marshal [of 29] have "\<forall>r \<in> set (take 25 (testKeys 29)). marshals keyModel r"
    by (meson in_set_takeD)
  from putRequests_succeeds [OF this, of writeHandler testUuid 0 "[]"] obtain requests where
    p: "putRequests writeHandler keyModel testUuid True True (take 25 (testKeys 29)) 0 [] = Inr requests"
    by blast
  from putRequests_length [OF p] l have n: "length requests = 25" by simp
  let ?res = "\<lparr>UnprocessedItems =
             [''table'' \<mapsto> [\<lparr>DeleteRequest = None,
                              PutRequest = Some \<lparr>Item = [''partKey'' \<mapsto> Some (S ''test'')]\<rparr>\<rparr>]]\<rparr>"
  have w: "BatchWriteItemWithContext writeHandler
             \<lparr>WriteRequestItems = [TableName (TableInfo (config writeHandler)) \<mapsto> requests]\<rparr> = Inr ?res"
    by (simp add: writeHandler_def testHandler_def MockedBatchWrite_def)
  have d: "list_all2 (\<lambda>item r. \<exists>pr. PutRequest item = Some pr
                                     \<and> Unmarshal keyModel (testKey 0) (Item pr) = Inr r)
                (case UnprocessedItems ?res (TableName (TableInfo (config writeHandler))) of
                   None \<Rightarrow> [] | Some its \<Rightarrow> its) [\<lparr>partitionKey = ''test'', sortKey = None\<rparr>]"
    by (simp add: t keyModel_def lookupAttr_def unmarshalString_def)
  from C7_BulkAddRecords_29_records [OF l, of writeHandler keyModel testUuid "testKey 0" True] p w d
  have "BulkAddRecords writeHandler keyModel testUuid (testKey 0) True (testKeys 29)
           = (Returns (drop 25 (testKeys 29) @ [\<lparr>partitionKey = ''test'', sortKey = None\<rparr>], None),
              [\<lparr>WriteRequestItems = [''table'' \<mapsto> requests]\<rparr>])"
    unfolding t by blast
  with l n show ?thesis by blast
qed

end
